theory Spec2Isabelle
  imports Complex_Main
begin

section \<open>The property interface of ArtPlayer.vue\<close>

text \<open>
  The component \<^verbatim>\<open>ArtPlayer.vue\<close> wraps the Artplayer library. Its script has a mount
  hook that parses the properties, builds the player options and, when audio tracks are
  configured, keeps a separate \<^verbatim>\<open>audio\<close> element aligned with the player's video
  element; and an unmount hook that destroys the player.

  Optional fields of the TypeScript interfaces are options; a field read in a condition
  is tested for JavaScript truthiness.
\<close>

record quality =
  q_default :: "bool option"
  q_html :: string
  q_url :: string
  q_audioUrl :: "string option"

record audio_track =
  t_default :: "bool option"
  t_html :: string
  t_url :: string

text \<open>
  \<^verbatim>\<open>qualities?: Quality[] | string\<close> and \<^verbatim>\<open>audioTracks?: AudioTrack[] | string\<close>:
  absent, a JSON string, or a structured list.
\<close>

datatype 'a variant_prop = NotGiven | Text string | Items "'a list"

record props =
  p_url :: "string option"
  p_qualities :: "quality variant_prop"
  p_audioTracks :: "audio_track variant_prop"
  p_poster :: "string option"
  p_title :: "string option"

definition truthy_flag :: "bool option \<Rightarrow> bool" where
  "truthy_flag b = (b = Some True)"

definition truthy_text :: "string option \<Rightarrow> bool" where
  "truthy_text x = (case x of None \<Rightarrow> False | Some s \<Rightarrow> s \<noteq> [])"

definition or_empty :: "string option \<Rightarrow> string" where
  "or_empty x = (case x of None \<Rightarrow> [] | Some s \<Rightarrow> s)"

text \<open>
  \<^verbatim>\<open>JSON.parse\<close> returns a value of any shape, and the hook assigns it to the array
  variable unchecked. So the values the hook computes on are JavaScript values: the
  JSON values and \<^verbatim>\<open>undefined\<close>. An object is the list of its own properties, each
  key once.
\<close>

datatype js =
    JUndefined | JNull | JBool bool | JNumber real | JString string
  | JArray "js list" | JObject "(string \<times> js) list"

text \<open>
  What the hook can throw to its caller: the \<^verbatim>\<open>TypeError\<close> of the language, raised
  by reading a property of \<^verbatim>\<open>null\<close> or \<^verbatim>\<open>undefined\<close> and by calling what is not
  a function; and whatever the constructor of the player throws.
\<close>

datatype js_error = TypeError | ConstructorError

text \<open>
  A structured list of the properties as a value: the fields that are set become the
  properties of an object.
\<close>

definition flag_prop :: "string \<Rightarrow> bool option \<Rightarrow> (string \<times> js) list" where
  "flag_prop k b = (case b of None \<Rightarrow> [] | Some v \<Rightarrow> [(k, JBool v)])"

definition text_prop :: "string \<Rightarrow> string option \<Rightarrow> (string \<times> js) list" where
  "text_prop k x = (case x of None \<Rightarrow> [] | Some v \<Rightarrow> [(k, JString v)])"

definition quality_js :: "quality \<Rightarrow> js" where
  "quality_js q =
     JObject (flag_prop ''default'' (q_default q)
                @ [(''html'', JString (q_html q)), (''url'', JString (q_url q))]
                @ text_prop ''audioUrl'' (q_audioUrl q))"

definition track_js :: "audio_track \<Rightarrow> js" where
  "track_js t =
     JObject (flag_prop ''default'' (t_default t)
                @ [(''html'', JString (t_html t)), (''url'', JString (t_url t))])"

text \<open>
  The options object handed to \<^verbatim>\<open>new Artplayer\<close>. The constant switches of lines
  78-95 (\<^verbatim>\<open>pip\<close>, \<^verbatim>\<open>autoSize\<close>, ...) play no part below and are left out;
  \<open>o_quality\<close> and \<open>o_url\<close> are \<open>None\<close> while the key is not set.
\<close>

record player_options =
  o_poster :: string
  o_title :: string
  o_volume :: real
  o_muted :: bool
  o_autoplay :: bool
  o_theme :: string
  o_lang :: string
  o_quality :: "js option"
  o_url :: "js option"

text \<open>
  The built-ins and the library the hook calls are parameters of the model:
  \<^verbatim>\<open>JSON.parse\<close>, with \<open>None\<close> the thrown \<^verbatim>\<open>SyntaxError\<close>; the conversion to
  a number that the comparison \<^verbatim>\<open>>\<close> applies to a string, an array or an object,
  with \<open>None\<close> the result \<^verbatim>\<open>NaN\<close>; and whether \<^verbatim>\<open>new Artplayer\<close> returns
  a player for the options or throws.
\<close>

record platform =
  json_parse :: "string \<Rightarrow> js option"
  to_number :: "js \<Rightarrow> real option"
  artplayer_accepts :: "player_options \<Rightarrow> bool"

text \<open>
  A value in a condition, and as the left operand of \<^verbatim>\<open>&&\<close> and \<^verbatim>\<open>||\<close>.
\<close>

fun truthy :: "js \<Rightarrow> bool" where
  "truthy JUndefined = False"
| "truthy JNull = False"
| "truthy (JBool b) = b"
| "truthy (JNumber x) = (x \<noteq> 0)"
| "truthy (JString s) = (s \<noteq> [])"
| "truthy (JArray xs) = True"
| "truthy (JObject kvs) = True"

text \<open>
  \<^verbatim>\<open>v.k\<close> for one of the keys \<^verbatim>\<open>default\<close>, \<^verbatim>\<open>url\<close>, \<^verbatim>\<open>html\<close>, which
  no prototype defines: a \<^verbatim>\<open>TypeError\<close> on \<^verbatim>\<open>null\<close> and \<^verbatim>\<open>undefined\<close>, the
  own property of an object, and \<^verbatim>\<open>undefined\<close> otherwise.
\<close>

definition get_prop :: "string \<Rightarrow> js \<Rightarrow> js_error + js" where
  "get_prop k v =
     (case v of
        JUndefined \<Rightarrow> Inl TypeError
      | JNull \<Rightarrow> Inl TypeError
      | JObject kvs \<Rightarrow> Inr (case map_of kvs k of Some x \<Rightarrow> x | None \<Rightarrow> JUndefined)
      | _ \<Rightarrow> Inr JUndefined)"

text \<open>
  \<^verbatim>\<open>v.length\<close> for a value that is neither \<^verbatim>\<open>null\<close> nor \<^verbatim>\<open>undefined\<close>: the
  number of elements of an array and of code units of a string, the own property of an
  object, and \<^verbatim>\<open>undefined\<close> on a boolean and a number.
\<close>

definition js_length :: "js \<Rightarrow> js" where
  "js_length v =
     (case v of
        JArray xs \<Rightarrow> JNumber (real (length xs))
      | JString s \<Rightarrow> JNumber (real (length s))
      | JObject kvs \<Rightarrow> (case map_of kvs ''length'' of Some x \<Rightarrow> x | None \<Rightarrow> JUndefined)
      | _ \<Rightarrow> JUndefined)"

text \<open>
  \<^verbatim>\<open>v > n\<close> for a number \<open>n\<close>: \<open>v\<close> is converted to a number, and the
  comparison is false when the conversion gives \<^verbatim>\<open>NaN\<close>.
\<close>

definition greater :: "platform \<Rightarrow> js \<Rightarrow> real \<Rightarrow> bool" where
  "greater pf v n =
     (case (case v of
              JNumber x \<Rightarrow> Some x
            | JUndefined \<Rightarrow> None
            | JNull \<Rightarrow> Some 0
            | JBool b \<Rightarrow> Some (if b then 1 else 0)
            | _ \<Rightarrow> to_number pf v) of
        Some x \<Rightarrow> n < x
      | None \<Rightarrow> False)"

text \<open>
  The test of lines 104 and 117, \<^verbatim>\<open>arr && arr.length > 0\<close>.
\<close>

definition has_items :: "platform \<Rightarrow> js \<Rightarrow> bool" where
  "has_items pf v = (truthy v \<and> greater pf (js_length v) 0)"

text \<open>
  \<^verbatim>\<open>xs.find(x => x.k)\<close> on the elements of an array: the first element whose
  property is truthy, \<^verbatim>\<open>undefined\<close> when there is none, and the \<^verbatim>\<open>TypeError\<close>
  of the callback when it comes to a \<^verbatim>\<open>null\<close> element first.
\<close>

fun js_find :: "string \<Rightarrow> js list \<Rightarrow> js_error + js" where
  "js_find k [] = Inr JUndefined"
| "js_find k (x # xs) =
     (case get_prop k x of
        Inl e \<Rightarrow> Inl e
      | Inr d \<Rightarrow> if truthy d then Inr x else js_find k xs)"

text \<open>
  \<^verbatim>\<open>arr.find(x => x.default) || arr[0]\<close> of lines 107 and 118. Only an array has a
  method \<^verbatim>\<open>find\<close>: on a string and on an object the call is a \<^verbatim>\<open>TypeError\<close>.
\<close>

definition pick_default :: "js \<Rightarrow> js_error + js" where
  "pick_default v =
     (case v of
        JArray xs \<Rightarrow>
          (case js_find ''default'' xs of
             Inl e \<Rightarrow> Inl e
           | Inr found \<Rightarrow>
               Inr (if truthy found then found
                    else (case xs of [] \<Rightarrow> JUndefined | x # _ \<Rightarrow> x)))
      | _ \<Rightarrow> Inl TypeError)"

text \<open>
  Lines 42-53 and 56-67, the same code for both properties. The outer \<^verbatim>\<open>if\<close> tests
  the property for truthiness, so the empty string is skipped like a missing property.
  A failed parse is caught, one line is written to the console, and the array variable
  stays \<^verbatim>\<open>undefined\<close>; a successful parse is assigned whatever it is. The result is
  the array variable and the lines written to the console.
\<close>

definition parseVariants ::
  "platform \<Rightarrow> ('a \<Rightarrow> js) \<Rightarrow> string \<Rightarrow> 'a variant_prop \<Rightarrow> js \<times> string list" where
  "parseVariants pf as_js msg p =
     (case p of
        NotGiven \<Rightarrow> (JUndefined, [])
      | Text s \<Rightarrow>
          (if s = [] then (JUndefined, [])
           else (case json_parse pf s of
                   Some v \<Rightarrow> (v, [])
                 | None \<Rightarrow> (JUndefined, [msg])))
      | Items xs \<Rightarrow> (JArray (map as_js xs), []))"

text \<open>
  What the mount hook reads from the page: whether the container reference is set, the
  trimmed value of the brand colour variable, and the lower-cased browser language.
\<close>

record page_env =
  has_container :: bool
  brand_value :: string
  language :: string

text \<open>
  Lines 70-101: the options before a source is chosen.
\<close>

definition base_options :: "page_env \<Rightarrow> props \<Rightarrow> player_options" where
  "base_options env p =
     \<lparr>o_poster = or_empty (p_poster p), o_title = or_empty (p_title p),
      o_volume = 1, o_muted = False, o_autoplay = False,
      o_theme = (if brand_value env = [] then ''#3451b2'' else brand_value env),
      o_lang = language env, o_quality = None, o_url = None\<rparr>"

text \<open>
  Lines 104-112: the quality list and the URL of its default entry when the array
  variable passes the test, the URL property when that is truthy, and no source
  otherwise.
\<close>

definition video_source ::
  "platform \<Rightarrow> props \<Rightarrow> js \<Rightarrow> player_options \<Rightarrow> js_error + player_options" where
  "video_source pf p qualitiesArray playerOptions =
     (if has_items pf qualitiesArray then
        (case pick_default qualitiesArray of
           Inl e \<Rightarrow> Inl e
         | Inr defaultQuality \<Rightarrow>
             (case get_prop ''url'' defaultQuality of
                Inl e \<Rightarrow> Inl e
              | Inr u \<Rightarrow> Inr (playerOptions\<lparr>o_quality := Some qualitiesArray, o_url := Some u\<rparr>)))
      else if truthy_text (p_url p) then
        Inr (playerOptions\<lparr>o_url := map_option JString (p_url p)\<rparr>)
      else Inr playerOptions)"

text \<open>
  Lines 210-214: an entry of the selector,
  \<^verbatim>\<open>{html: track.html, value: track.url, default: track.default || false}\<close>, and
  \<^verbatim>\<open>map\<close> over the tracks, which stops at the first entry that throws.
\<close>

definition selector_entry :: "js \<Rightarrow> js_error + js" where
  "selector_entry track =
     (case get_prop ''html'' track of
        Inl e \<Rightarrow> Inl e
      | Inr h \<Rightarrow>
          (case get_prop ''url'' track of
             Inl e \<Rightarrow> Inl e
           | Inr u \<Rightarrow>
               (case get_prop ''default'' track of
                  Inl e \<Rightarrow> Inl e
                | Inr d \<Rightarrow>
                    Inr (JObject [(''html'', h), (''value'', u),
                                  (''default'', if truthy d then d else JBool False)]))))"

fun js_map :: "(js \<Rightarrow> js_error + js) \<Rightarrow> js list \<Rightarrow> js_error + js list" where
  "js_map f [] = Inr []"
| "js_map f (x # xs) =
     (case f x of
        Inl e \<Rightarrow> Inl e
      | Inr y \<Rightarrow> (case js_map f xs of Inl e \<Rightarrow> Inl e | Inr ys \<Rightarrow> Inr (y # ys)))"

text \<open>
  What the audio branch of lines 116-237 sets up when it is entered: the track array,
  the track chosen on line 118, and the entries of the selector when one is added to
  the settings panel (line 206, more than one track).
\<close>

record audio_setup =
  a_tracks :: js
  a_current :: js
  a_selector :: "js list option"

definition audio_branch :: "platform \<Rightarrow> js \<Rightarrow> js_error + audio_setup option" where
  "audio_branch pf audioTracksArray =
     (if has_items pf audioTracksArray then
        (case pick_default audioTracksArray of
           Inl e \<Rightarrow> Inl e
         | Inr currentAudioTrack \<Rightarrow>
             (if greater pf (js_length audioTracksArray) 1 then
                (case audioTracksArray of
                   JArray ts \<Rightarrow>
                     (case js_map selector_entry ts of
                        Inl e \<Rightarrow> Inl e
                      | Inr sel \<Rightarrow>
                          Inr (Some \<lparr>a_tracks = audioTracksArray,
                                     a_current = currentAudioTrack,
                                     a_selector = Some sel\<rparr>))
                 | _ \<Rightarrow> Inl TypeError)
              else Inr (Some \<lparr>a_tracks = audioTracksArray, a_current = currentAudioTrack,
                              a_selector = None\<rparr>)))
      else Inr None)"

text \<open>
  \<^verbatim>\<open>arr.find(x => x.default) || arr[0]\<close> on a list of the declared element type.
\<close>

fun default_or_first :: "('a \<Rightarrow> bool) \<Rightarrow> 'a list \<Rightarrow> 'a option" where
  "default_or_first P [] = None"
| "default_or_first P (x # xs) =
     (case find P (x # xs) of Some y \<Rightarrow> Some y | None \<Rightarrow> Some x)"

text \<open>
  The mount hook, lines 32-238. It does nothing without a container. Otherwise both
  properties are parsed, the options are built, the player is constructed, and the
  audio branch is run. The result is the lines written to the console and either what
  was thrown to the caller or what was set up: the options the player was constructed
  with, and the audio setup when the audio branch was entered. Both properties are
  parsed before anything can be thrown, so the console is the same in either case.
\<close>

record mounted =
  m_options :: player_options
  m_audio :: "audio_setup option"

definition onMounted ::
  "platform \<Rightarrow> page_env \<Rightarrow> props \<Rightarrow> string list \<times> (js_error + mounted option)" where
  "onMounted pf env p =
     (if \<not> has_container env then ([], Inr None)
      else
        let (qualitiesArray, c1) =
               parseVariants pf quality_js ''Failed to parse qualities JSON:'' (p_qualities p);
            (audioTracksArray, c2) =
               parseVariants pf track_js ''Failed to parse audioTracks JSON:''
                 (p_audioTracks p)
        in (c1 @ c2,
            case video_source pf p qualitiesArray (base_options env p) of
              Inl e \<Rightarrow> Inl e
            | Inr playerOptions \<Rightarrow>
                if \<not> artplayer_accepts pf playerOptions then Inl ConstructorError
                else (case audio_branch pf audioTracksArray of
                        Inl e \<Rightarrow> Inl e
                      | Inr a \<Rightarrow> Inr (Some \<lparr>m_options = playerOptions, m_audio = a\<rparr>))))"

section \<open>The host player and the platform\<close>

text \<open>
  Artplayer and the browser are not part of the component. Everything the audio code
  reads from or writes to them goes through the operations below, which are a parameter
  of the model: \<open>'h\<close> is the state of the host (the player instance, its video element
  and the platform's autoplay policy). No relation between the player's volume accessor
  and the video element's own volume is assumed.
\<close>

record 'h host_api =
  video_paused :: "'h \<Rightarrow> bool"
  video_currentTime :: "'h \<Rightarrow> real"
  video_set_volume :: "real \<Rightarrow> 'h \<Rightarrow> 'h"
  art_volume :: "'h \<Rightarrow> real"
  art_muted :: "'h \<Rightarrow> bool"
  art_set_volume :: "real \<Rightarrow> 'h \<Rightarrow> 'h"
  art_set_muted :: "bool \<Rightarrow> 'h \<Rightarrow> 'h"
  may_play :: "'h \<Rightarrow> bool"

section \<open>Audio elements\<close>

text \<open>
  The \<^verbatim>\<open>duration\<close> of a media element is \<^verbatim>\<open>NaN\<close> until its metadata is known.
\<close>

datatype js_duration = NaN | Infinite | Seconds real

definition isNaN :: "js_duration \<Rightarrow> bool" where
  "isNaN d = (d = NaN)"

record audio_el =
  src :: string
  crossOrigin :: string
  display :: string
  attached :: bool
  paused :: bool
  currentTime :: real
  duration :: js_duration
  volume :: real
  muted :: bool

text \<open>What \<^verbatim>\<open>document.createElement('audio')\<close> returns.\<close>

definition new_audio :: audio_el where
  "new_audio =
     \<lparr>src = [], crossOrigin = [], display = [], attached = False, paused = True,
      currentTime = 0, duration = NaN, volume = 1, muted = False\<rparr>"

text \<open>
  What the browser does with an audio element, as far as the component relies on it.
  A write to \<^verbatim>\<open>currentTime\<close> is a seek: the position asked for is brought into the
  media, so a position behind the end of the media becomes the end. An element whose
  position is the end of its media has ended. A \<^verbatim>\<open>play()\<close> that the platform grants
  clears the paused flag, and on an element that has ended it first goes back to the
  start. Buffering, seekable ranges and the progress of time while an element plays are
  not part of the model.
\<close>

definition clamp_time :: "js_duration \<Rightarrow> real \<Rightarrow> real" where
  "clamp_time d t = (case d of Seconds len \<Rightarrow> max 0 (min t len) | _ \<Rightarrow> max 0 t)"

definition set_currentTime :: "real \<Rightarrow> audio_el \<Rightarrow> audio_el" where
  "set_currentTime t e = e\<lparr>currentTime := clamp_time (duration e) t\<rparr>"

definition ended :: "audio_el \<Rightarrow> bool" where
  "ended e = (case duration e of Seconds len \<Rightarrow> len \<le> currentTime e | _ \<Rightarrow> False)"

definition start_playing :: "audio_el \<Rightarrow> audio_el" where
  "start_playing e =
     e\<lparr>paused := False, currentTime := (if ended e then 0 else currentTime e)\<rparr>"

text \<open>The four events of the video element the component listens to.\<close>

datatype video_event = Play | Pause | Seeked | VolumeChange

text \<open>
  The operations on the page that can be observed from outside, in the order in which
  they happen. \<open>PositionSet i t\<close> is the assignment of \<open>t\<close> to the
  \<^verbatim>\<open>currentTime\<close> of element \<open>i\<close>.
\<close>

datatype dom_op =
    Created nat
  | Appended nat
  | Paused nat
  | Removed nat
  | PositionSet nat real
  | PlayRequested nat
  | ListenerAdded video_event
  | ConsoleError string
  | OriginalDestroy bool

section \<open>The audio session\<close>

text \<open>
  The variables of the audio branch (lines 118-120) and what they refer to. Audio
  elements are values in a store, named by their index; \<open>audioElement\<close> holds the
  index of the current one or \<open>None\<close> for \<^verbatim>\<open>null\<close>. \<open>listeners\<close> are the listeners
  registered on the video element, in registration order; every listener the component
  registers for one event runs the same code on the same variables, so the event is all
  that is kept of it. \<open>timers\<close> counts the pending callbacks of line 193.
\<close>

record 'h session =
  host :: 'h
  elements :: "audio_el list"
  audioElement :: "nat option"
  isInitializing :: bool
  currentAudioTrack :: audio_track
  listeners :: "video_event list"
  timers :: nat
  ops :: "dom_op list"

text \<open>
  The session as the audio branch starts it, with \<open>t\<close> the track chosen on line 118;
  there is none when the track array is empty, since the branch is not entered.
\<close>

definition initial_session :: "audio_track \<Rightarrow> 'h \<Rightarrow> 'h session" where
  "initial_session t h =
     \<lparr>host = h, elements = [], audioElement = None, isInitializing = False,
      currentAudioTrack = t, listeners = [], timers = 0, ops = []\<rparr>"

definition start_session :: "audio_track list \<Rightarrow> 'h \<Rightarrow> 'h session option" where
  "start_session tracks h =
     map_option (\<lambda>t. initial_session t h)
       (default_or_first (\<lambda>t. truthy_flag (t_default t)) tracks)"

definition pause_el :: "nat \<Rightarrow> 'h session \<Rightarrow> 'h session" where
  "pause_el i s =
     s\<lparr>elements := (elements s)[i := (elements s ! i)\<lparr>paused := True\<rparr>],
       ops := ops s @ [Paused i]\<rparr>"

definition remove_el :: "nat \<Rightarrow> 'h session \<Rightarrow> 'h session" where
  "remove_el i s =
     s\<lparr>elements := (elements s)[i := (elements s ! i)\<lparr>attached := False\<rparr>],
       ops := ops s @ [Removed i]\<rparr>"

text \<open>
  \<^verbatim>\<open>el.play().catch(e => console.error('Audio play error:', e))\<close>: the request is
  made once; the platform either starts the element or rejects the promise, and the
  rejection is written to the console.
\<close>

definition play_el :: "'h host_api \<Rightarrow> nat \<Rightarrow> 'h session \<Rightarrow> 'h session" where
  "play_el api i s =
     (if may_play api (host s)
      then s\<lparr>elements := (elements s)[i := start_playing (elements s ! i)],
             ops := ops s @ [PlayRequested i]\<rparr>
      else s\<lparr>ops := ops s @ [PlayRequested i, ConsoleError ''Audio play error:'']\<rparr>)"

text \<open>Lines 138-142.\<close>

definition sync :: "'h host_api \<Rightarrow> 'h session \<Rightarrow> 'h session" where
  "sync api s =
     (case audioElement s of
        None \<Rightarrow> s
      | Some i \<Rightarrow>
          (if \<not> isNaN (duration (elements s ! i))
           then s\<lparr>elements :=
                    (elements s)[i := set_currentTime (video_currentTime api (host s))
                                        (elements s ! i)],
                  ops := ops s @ [PositionSet i (video_currentTime api (host s))]\<rparr>
           else s))"

definition on_play :: "'h host_api \<Rightarrow> 'h session \<Rightarrow> 'h session" where
  "on_play api s =
     (let s1 = sync api s
      in case audioElement s1 of None \<Rightarrow> s1 | Some i \<Rightarrow> play_el api i s1)"

definition on_pause :: "'h session \<Rightarrow> 'h session" where
  "on_pause s = (case audioElement s of None \<Rightarrow> s | Some i \<Rightarrow> pause_el i s)"

definition on_seeked :: "'h host_api \<Rightarrow> 'h session \<Rightarrow> 'h session" where
  "on_seeked api s = sync api s"

definition on_volumechange :: "'h host_api \<Rightarrow> 'h session \<Rightarrow> 'h session" where
  "on_volumechange api s =
     (if isInitializing s then s
      else (case audioElement s of
              None \<Rightarrow> s
            | Some i \<Rightarrow>
                let s1 = s\<lparr>elements :=
                             (elements s)[i := (elements s ! i)
                                                 \<lparr>volume := art_volume api (host s),
                                                  muted := art_muted api (host s)\<rparr>]\<rparr>
                in if \<not> video_paused api (host s1) \<and> \<not> art_muted api (host s1)
                        \<and> paused (elements s1 ! i)
                   then play_el api i s1 else s1))"

definition handler :: "'h host_api \<Rightarrow> video_event \<Rightarrow> 'h session \<Rightarrow> 'h session" where
  "handler api ev =
     (case ev of
        Play \<Rightarrow> on_play api
      | Pause \<Rightarrow> on_pause
      | Seeked \<Rightarrow> on_seeked api
      | VolumeChange \<Rightarrow> on_volumechange api)"

text \<open>
  The video element fires an event: every listener registered for it runs, in
  registration order.
\<close>

definition dispatch :: "'h host_api \<Rightarrow> video_event \<Rightarrow> 'h session \<Rightarrow> 'h session" where
  "dispatch api ev s =
     fold (\<lambda>l st. if l = ev then handler api ev st else st) (listeners s) s"

text \<open>
  Lines 123-183. The current element, if any, is paused and removed (124-127); a new
  element is created, given the URL and appended to the document (129-133); four
  listeners are registered on the video element (145-172); the new element gets the
  volume and mute flag of the player (175-176); and when the video is playing, the
  position is synchronised and playback requested (179-182).
\<close>

definition createAudioElement :: "'h host_api \<Rightarrow> string \<Rightarrow> 'h session \<Rightarrow> 'h session" where
  "createAudioElement api audioUrl s =
     (let s1 = (case audioElement s of
                  None \<Rightarrow> s
                | Some i \<Rightarrow> remove_el i (pause_el i s));
          n = length (elements s1);
          s2 = s1\<lparr>elements :=
                     elements s1 @
                       [new_audio\<lparr>src := audioUrl, crossOrigin := ''anonymous'',
                                  display := ''none'', attached := True\<rparr>],
                  audioElement := Some n,
                  ops := ops s1 @ [Created n, Appended n]\<rparr>;
          s3 = s2\<lparr>listeners := listeners s2 @ [Play, Pause, Seeked, VolumeChange],
                  ops := ops s2 @ [ListenerAdded Play, ListenerAdded Pause,
                                   ListenerAdded Seeked, ListenerAdded VolumeChange]\<rparr>;
          s4 = s3\<lparr>elements :=
                     (elements s3)[n := (elements s3 ! n)
                                          \<lparr>volume := art_volume api (host s3),
                                           muted := art_muted api (host s3)\<rparr>]\<rparr>
      in if \<not> video_paused api (host s4) then play_el api n (sync api s4) else s4)"

text \<open>Lines 186-203: the handler of the player's \<^verbatim>\<open>ready\<close> event.\<close>

definition on_ready :: "'h host_api \<Rightarrow> 'h session \<Rightarrow> 'h session" where
  "on_ready api s =
     (let s1 = s\<lparr>isInitializing := True\<rparr>;
          s2 = s1\<lparr>host := video_set_volume api 0 (host s1)\<rparr>;
          s3 = s2\<lparr>timers := Suc (timers s2)\<rparr>
      in if t_url (currentAudioTrack s3) \<noteq> []
         then createAudioElement api (t_url (currentAudioTrack s3)) s3
         else s3)"

text \<open>Lines 193-197: the callback that runs 50 ms after \<^verbatim>\<open>ready\<close>.\<close>

definition guard_elapsed :: "'h host_api \<Rightarrow> 'h session \<Rightarrow> 'h session" where
  "guard_elapsed api s =
     s\<lparr>host := art_set_muted api False (art_set_volume api 1 (host s)),
       isInitializing := False\<rparr>"

text \<open>Lines 215-223: the selection callback of the settings panel.\<close>

record selector_item =
  i_html :: string
  i_value :: string

definition onSelect ::
  "'h host_api \<Rightarrow> audio_track list \<Rightarrow> selector_item \<Rightarrow> 'h session \<Rightarrow> 'h session \<times> string" where
  "onSelect api audioTracksArray item s =
     (case find (\<lambda>t. t_url t = i_value item) audioTracksArray of
        Some selectedTrack \<Rightarrow>
          (createAudioElement api (t_url selectedTrack)
             (s\<lparr>currentAudioTrack := selectedTrack\<rparr>),
           i_html item)
      | None \<Rightarrow> (s, t_html (currentAudioTrack s)))"

text \<open>
  Lines 229-236: the wrapped \<^verbatim>\<open>art.destroy\<close>. \<open>detach\<close> is the cleanup it puts in
  front (lines 230-234); the call of the player's own destroy that follows is recorded
  as an operation. Lines 240-244: the unmount hook.
\<close>

definition detach :: "'h session \<Rightarrow> 'h session" where
  "detach s =
     (case audioElement s of
        None \<Rightarrow> s
      | Some i \<Rightarrow> (remove_el i (pause_el i s))\<lparr>audioElement := None\<rparr>)"

definition destroy :: "bool \<Rightarrow> 'h session \<Rightarrow> 'h session" where
  "destroy removeHtml s =
     (let s1 = detach s
      in s1\<lparr>ops := ops s1 @ [OriginalDestroy removeHtml]\<rparr>)"

definition onBeforeUnmount :: "'h session \<Rightarrow> 'h session" where
  "onBeforeUnmount s = destroy False s"

section \<open>Runs\<close>

text \<open>
  What can happen to a session, one event at a time. \<open>HostSet\<close> is the host changing
  by itself (the user, the player or the browser acting on the video element);
  \<open>MetadataLoaded\<close> is the browser learning the duration of an audio element. The
  timer callback runs only when one is pending, and the selection callback only exists
  when more than one track is configured.
\<close>

datatype 'h event =
    Ready
  | GuardElapsed
  | Video video_event
  | Select selector_item
  | Destroy bool
  | Unmount
  | HostSet 'h
  | MetadataLoaded nat js_duration

definition step :: "'h host_api \<Rightarrow> audio_track list \<Rightarrow> 'h event \<Rightarrow> 'h session \<Rightarrow> 'h session" where
  "step api tracks e s =
     (case e of
        Ready \<Rightarrow> on_ready api s
      | GuardElapsed \<Rightarrow>
          (if timers s = 0 then s else guard_elapsed api (s\<lparr>timers := timers s - 1\<rparr>))
      | Video ev \<Rightarrow> dispatch api ev s
      | Select item \<Rightarrow>
          (if length tracks > 1 then fst (onSelect api tracks item s) else s)
      | Destroy removeHtml \<Rightarrow> destroy removeHtml s
      | Unmount \<Rightarrow> onBeforeUnmount s
      | HostSet h \<Rightarrow> s\<lparr>host := h\<rparr>
      | MetadataLoaded i d \<Rightarrow>
          s\<lparr>elements := (elements s)[i := (elements s ! i)\<lparr>duration := d\<rparr>]\<rparr>)"

definition run :: "'h host_api \<Rightarrow> audio_track list \<Rightarrow> 'h event list \<Rightarrow> 'h session \<Rightarrow> 'h session" where
  "run api tracks es s = fold (step api tracks) es s"

section \<open>What the listeners write\<close>

text \<open>
  The operations one playback request adds: the request, and the console line when the
  platform rejects it.
\<close>

definition play_ops :: "'h host_api \<Rightarrow> nat \<Rightarrow> 'h \<Rightarrow> dom_op list" where
  "play_ops api i h =
     (if may_play api h then [PlayRequested i]
      else [PlayRequested i, ConsoleError ''Audio play error:''])"

text \<open>
  The condition of line 168, read when the volume listener has copied volume and mute
  flag: the video is playing, the player is not muted and the audio element is paused.
\<close>

definition resumes :: "'h host_api \<Rightarrow> nat \<Rightarrow> 'h session \<Rightarrow> bool" where
  "resumes api i s =
     (\<not> video_paused api (host s) \<and> \<not> art_muted api (host s) \<and> paused (elements s ! i))"

text \<open>
  The audio element \<open>i\<close> after a volume change of the player has been copied to it.
\<close>

definition mirrored :: "'h host_api \<Rightarrow> nat \<Rightarrow> 'h session \<Rightarrow> audio_el" where
  "mirrored api i s =
     (let e = (elements s ! i)
                \<lparr>volume := art_volume api (host s), muted := art_muted api (host s)\<rparr>
      in if resumes api i s \<and> may_play api (host s) then start_playing e else e)"

text \<open>
  The audio element \<open>e\<close> after one play listener has run with the host in state \<open>h\<close>,
  and the operations the listener adds for element \<open>i\<close>: the position is written
  first, when there is a duration, and playback is requested after that.
\<close>

definition aligned_then_played :: "'h host_api \<Rightarrow> 'h \<Rightarrow> audio_el \<Rightarrow> audio_el" where
  "aligned_then_played api h e =
     (let e1 = (if isNaN (duration e) then e
                else set_currentTime (video_currentTime api h) e)
      in if may_play api h then start_playing e1 else e1)"

definition play_listener_ops :: "'h host_api \<Rightarrow> nat \<Rightarrow> 'h \<Rightarrow> audio_el \<Rightarrow> dom_op list" where
  "play_listener_ops api i h e =
     (if isNaN (duration e) then [] else [PositionSet i (video_currentTime api h)])
     @ play_ops api i h"

section \<open>A concrete host\<close>

text \<open>
  A host to evaluate the model on: a video element with its own volume and mute flag,
  which the player's accessors read and write directly (as the \<^verbatim>\<open>volume\<close> and
  \<^verbatim>\<open>muted\<close> accessors of Artplayer do), and a platform that either allows playback to
  start or does not.
\<close>

record primary =
  pv_paused :: bool
  pv_currentTime :: real
  pv_volume :: real
  pv_muted :: bool
  autoplay_allowed :: bool

definition direct_api :: "primary host_api" where
  "direct_api =
     \<lparr>video_paused = pv_paused, video_currentTime = pv_currentTime,
      video_set_volume = (\<lambda>v h. h\<lparr>pv_volume := v\<rparr>),
      art_volume = pv_volume, art_muted = pv_muted,
      art_set_volume = (\<lambda>v h. h\<lparr>pv_volume := v\<rparr>),
      art_set_muted = (\<lambda>b h. h\<lparr>pv_muted := b\<rparr>),
      may_play = autoplay_allowed\<rparr>"

definition track_a :: audio_track where
  "track_a = \<lparr>t_default = Some True, t_html = ''Original'', t_url = ''a.mp3''\<rparr>"

definition track_b :: audio_track where
  "track_b = \<lparr>t_default = None, t_html = ''Commentary'', t_url = ''b.mp3''\<rparr>"

definition two_tracks :: "audio_track list" where
  "two_tracks = [track_a, track_b]"

definition paused_at_0 :: primary where
  "paused_at_0 =
     \<lparr>pv_paused = True, pv_currentTime = 0, pv_volume = 1, pv_muted = False,
      autoplay_allowed = True\<rparr>"

definition paused_at_30 :: primary where
  "paused_at_30 =
     \<lparr>pv_paused = True, pv_currentTime = 30, pv_volume = 1, pv_muted = False,
      autoplay_allowed = True\<rparr>"

definition playing_at_30 :: primary where
  "playing_at_30 =
     \<lparr>pv_paused = False, pv_currentTime = 30, pv_volume = 1, pv_muted = False,
      autoplay_allowed = True\<rparr>"

definition blocked_at_30 :: primary where
  "blocked_at_30 =
     \<lparr>pv_paused = False, pv_currentTime = 30, pv_volume = 1, pv_muted = False,
      autoplay_allowed = False\<rparr>"

text \<open>
  Two sessions on this host, both started with the video paused at 0 and past the
  timer callback, with the host then in state \<open>h\<close>: one whose audio element has no
  duration yet, one whose audio element has reported 120 seconds.
\<close>

definition unloaded_with :: "primary \<Rightarrow> primary session" where
  "unloaded_with h =
     run direct_api two_tracks [Ready, GuardElapsed, HostSet h]
       (initial_session track_a paused_at_0)"

definition loaded_with :: "primary \<Rightarrow> primary session" where
  "loaded_with h =
     run direct_api two_tracks
       [Ready, GuardElapsed, MetadataLoaded 0 (Seconds 120), HostSet h]
       (initial_session track_a paused_at_0)"

text \<open>
  The same with an audio element of 60 seconds, and a video paused at 90, behind the
  end of that audio.
\<close>

definition paused_at_90 :: primary where
  "paused_at_90 =
     \<lparr>pv_paused = True, pv_currentTime = 90, pv_volume = 1, pv_muted = False,
      autoplay_allowed = True\<rparr>"

definition playing_at_90 :: primary where
  "playing_at_90 =
     \<lparr>pv_paused = False, pv_currentTime = 90, pv_volume = 1, pv_muted = False,
      autoplay_allowed = True\<rparr>"

definition short_loaded_with :: "primary \<Rightarrow> primary session" where
  "short_loaded_with h =
     run direct_api two_tracks
       [Ready, GuardElapsed, MetadataLoaded 0 (Seconds 60), HostSet h]
       (initial_session track_a paused_at_0)"

definition other_item :: selector_item where
  "other_item = \<lparr>i_html = ''Other'', i_value = ''c.mp3''\<rparr>"

definition item_b :: selector_item where
  "item_b = \<lparr>i_html = ''Commentary'', i_value = ''b.mp3''\<rparr>"

text \<open>
  A session in step: the video plays at 30 and the play listener has brought the audio
  element to 30 and started it. Then the second track is selected.
\<close>

definition synced_playing :: "primary session" where
  "synced_playing = dispatch direct_api Play (loaded_with playing_at_30)"

definition switched_while_playing :: "primary session" where
  "switched_while_playing = fst (onSelect direct_api two_tracks item_b synced_playing)"

text \<open>
  What happens to the host during the guard window: it changes by itself to each state
  of \<open>hs\<close> in turn, and announces each change with a volumechange event.
\<close>

definition window_events :: "'h list \<Rightarrow> 'h event list" where
  "window_events hs = concat (map (\<lambda>h. [HostSet h, Video VolumeChange]) hs)"

text \<open>
  The host puts the volume of the video element back to 1 during the window and
  announces it. \<open>in_window\<close> is the session after that, still inside the window;
  \<open>after_window\<close> is the session after the timer callback.
\<close>

definition reset_to_full :: primary where
  "reset_to_full =
     \<lparr>pv_paused = True, pv_currentTime = 0, pv_volume = 1, pv_muted = False,
      autoplay_allowed = True\<rparr>"

definition in_window :: "primary session" where
  "in_window =
     run direct_api two_tracks (Ready # window_events [reset_to_full])
       (initial_session track_a paused_at_0)"

definition after_window :: "primary session" where
  "after_window =
     run direct_api two_tracks (Ready # window_events [reset_to_full] @ [GuardElapsed])
       (initial_session track_a paused_at_0)"

section \<open>Counting the calls of createAudioElement\<close>

text \<open>
  Whether an event makes the component call \<open>createAudioElement\<close> in a session: ready
  does when the current track has a URL (line 200), a selection does when the selector
  exists and its value is the URL of a track (lines 216-219). \<open>creations\<close> counts
  these calls along a run.
\<close>

definition creates :: "audio_track list \<Rightarrow> 'h event \<Rightarrow> 'h session \<Rightarrow> bool" where
  "creates tracks e s =
     (case e of
        Ready \<Rightarrow> t_url (currentAudioTrack s) \<noteq> []
      | Select item \<Rightarrow>
          length tracks > 1 \<and> find (\<lambda>t. t_url t = i_value item) tracks \<noteq> None
      | _ \<Rightarrow> False)"

primrec creations :: "'h host_api \<Rightarrow> audio_track list \<Rightarrow> 'h event list \<Rightarrow> 'h session \<Rightarrow> nat" where
  "creations api tracks [] s = 0"
| "creations api tracks (e # es) s =
     (if creates tracks e s then 1 else 0) + creations api tracks es (step api tracks e s)"

text \<open>A run with two creations: the player gets ready, and the second track is selected.\<close>

definition busy_events :: "primary event list" where
  "busy_events =
     [Ready, GuardElapsed, Video Play, Select item_b, Video Seeked, Select other_item,
      Destroy False]"

definition busy_session :: "primary session" where
  "busy_session = run direct_api two_tracks busy_events (initial_session track_a playing_at_30)"

section \<open>The audio elements in the document\<close>

text \<open>
  The audio elements of the store that are in the document, and those that are
  playing.
\<close>

definition attached_ids :: "'h session \<Rightarrow> nat list" where
  "attached_ids s = filter (\<lambda>j. attached (elements s ! j)) [0..<length (elements s)]"

definition playing_ids :: "'h session \<Rightarrow> nat list" where
  "playing_ids s = filter (\<lambda>j. \<not> paused (elements s ! j)) [0..<length (elements s)]"

text \<open>
  The same read off the recorded operations: \<^verbatim>\<open>appendChild\<close> puts an element into
  the document, \<^verbatim>\<open>remove\<close> takes it out. \<open>document_after\<close> is the set of audio
  elements in the document after a sequence of operations, starting from none.
\<close>

definition apply_op :: "dom_op \<Rightarrow> nat set \<Rightarrow> nat set" where
  "apply_op x A = (case x of Appended i \<Rightarrow> insert i A | Removed i \<Rightarrow> A - {i} | _ \<Rightarrow> A)"

definition document_after :: "dom_op list \<Rightarrow> nat set" where
  "document_after xs = fold apply_op xs {}"

fun at_most_one_from :: "nat set \<Rightarrow> dom_op list \<Rightarrow> bool" where
  "at_most_one_from A [] = (card A \<le> 1)"
| "at_most_one_from A (x # xs) = (card A \<le> 1 \<and> at_most_one_from (apply_op x A) xs)"

definition neutral :: "dom_op \<Rightarrow> bool" where
  "neutral x = (case x of Appended _ \<Rightarrow> False | Removed _ \<Rightarrow> False | _ \<Rightarrow> True)"

text \<open>
  What every reachable session satisfies: the current element exists and is in the
  document; every other element of the store is out of the document and paused; the recorded operations
  account for the elements in the document; and at no point of the record was more than
  one element in the document.
\<close>

definition session_ok :: "'h session \<Rightarrow> bool" where
  "session_ok s \<longleftrightarrow>
     (\<forall>i. audioElement s = Some i \<longrightarrow>
          i < length (elements s) \<and> attached (elements s ! i)) \<and>
     (\<forall>j < length (elements s).
        audioElement s \<noteq> Some j \<longrightarrow> \<not> attached (elements s ! j) \<and> paused (elements s ! j)) \<and>
     document_after (ops s) = {j. j < length (elements s) \<and> attached (elements s ! j)} \<and>
     at_most_one_from {} (ops s)"

text \<open>
  A step that creates and removes nothing: the current element and the store size stay,
  no element enters or leaves the document, the elements other than the current one
  keep their paused flag, and the operations added do not touch the document.
\<close>

definition quiet_step :: "'h session \<Rightarrow> 'h session \<Rightarrow> bool" where
  "quiet_step s s' \<longleftrightarrow>
     audioElement s' = audioElement s \<and>
     length (elements s') = length (elements s) \<and>
     (\<forall>j < length (elements s). attached (elements s' ! j) = attached (elements s ! j)) \<and>
     (\<forall>j < length (elements s).
        audioElement s \<noteq> Some j \<longrightarrow> paused (elements s' ! j) = paused (elements s ! j)) \<and>
     (\<exists>new. ops s' = ops s @ new \<and> list_all neutral new)"

section \<open>Concrete properties\<close>

text \<open>
  A platform to evaluate the mount hook on. Its parser knows the three JSON texts used
  below and rejects every other text, as \<^verbatim>\<open>JSON.parse\<close> rejects the text
  \<^verbatim>\<open>{oops\<close>; its constructor accepts all options.
\<close>

definition strict_platform :: platform where
  "strict_platform =
     \<lparr>json_parse = (\<lambda>s. if s = ''[]'' then Some (JArray [])
                          else if s = ''[null]'' then Some (JArray [JNull])
                          else if s = ''null'' then Some JNull
                          else None),
      to_number = (\<lambda>v. None),
      artplayer_accepts = (\<lambda>opts. True)\<rparr>"

definition page :: page_env where
  "page = \<lparr>has_container = True, brand_value = [], language = ''en-us''\<rparr>"

definition quality_hd :: quality where
  "quality_hd =
     \<lparr>q_default = Some True, q_html = ''1080p'', q_url = ''hd.mp4'', q_audioUrl = None\<rparr>"

text \<open>
  Properties with a plain URL and a quality list. To these is added: a text that is not
  JSON, once as the audio tracks and once as the qualities; and as the qualities the
  JSON text of an array whose only element is \<^verbatim>\<open>null\<close>.
\<close>

definition plain_props :: props where
  "plain_props =
     \<lparr>p_url = Some ''plain.mp4'', p_qualities = Items [quality_hd],
      p_audioTracks = NotGiven, p_poster = None, p_title = None\<rparr>"

definition bad_tracks_props :: props where
  "bad_tracks_props = plain_props\<lparr>p_audioTracks := Text ''{oops''\<rparr>"

definition bad_qualities_props :: props where
  "bad_qualities_props = plain_props\<lparr>p_qualities := Text ''{oops''\<rparr>"

definition null_member_props :: props where
  "null_member_props = plain_props\<lparr>p_qualities := Text ''[null]''\<rparr>"

definition plain_options :: player_options where
  "plain_options =
     \<lparr>o_poster = [], o_title = [], o_volume = 1, o_muted = False, o_autoplay = False,
      o_theme = ''#3451b2'', o_lang = ''en-us'', o_quality = None,
      o_url = Some (JString ''plain.mp4'')\<rparr>"

section \<open>Evaluating the concrete sessions\<close>

lemmas eval_defs =
  run_def step_def on_ready_def guard_elapsed_def createAudioElement_def
  initial_session_def direct_api_def new_audio_def track_a_def track_b_def
  two_tracks_def paused_at_0_def paused_at_30_def blocked_at_30_def playing_at_30_def
  play_el_def sync_def isNaN_def Let_def

lemma unloaded_with_eq:
  "unloaded_with h =
     \<lparr>host = h,
      elements = [\<lparr>src = ''a.mp3'', crossOrigin = ''anonymous'', display = ''none'',
                   attached = True, paused = True, currentTime = 0, duration = NaN,
                   volume = 0, muted = False\<rparr>],
      audioElement = Some 0, isInitializing = False, currentAudioTrack = track_a,
      listeners = [Play, Pause, Seeked, VolumeChange], timers = 0,
      ops = [Created 0, Appended 0, ListenerAdded Play, ListenerAdded Pause,
             ListenerAdded Seeked, ListenerAdded VolumeChange]\<rparr>"
  by (simp add: unloaded_with_def eval_defs)

lemma loaded_with_eq:
  "loaded_with h =
     \<lparr>host = h,
      elements = [\<lparr>src = ''a.mp3'', crossOrigin = ''anonymous'', display = ''none'',
                   attached = True, paused = True, currentTime = 0,
                   duration = Seconds 120, volume = 0, muted = False\<rparr>],
      audioElement = Some 0, isInitializing = False, currentAudioTrack = track_a,
      listeners = [Play, Pause, Seeked, VolumeChange], timers = 0,
      ops = [Created 0, Appended 0, ListenerAdded Play, ListenerAdded Pause,
             ListenerAdded Seeked, ListenerAdded VolumeChange]\<rparr>"
  by (simp add: loaded_with_def eval_defs)

lemma short_loaded_with_eq:
  "short_loaded_with h =
     \<lparr>host = h,
      elements = [\<lparr>src = ''a.mp3'', crossOrigin = ''anonymous'', display = ''none'',
                   attached = True, paused = True, currentTime = 0,
                   duration = Seconds 60, volume = 0, muted = False\<rparr>],
      audioElement = Some 0, isInitializing = False, currentAudioTrack = track_a,
      listeners = [Play, Pause, Seeked, VolumeChange], timers = 0,
      ops = [Created 0, Appended 0, ListenerAdded Play, ListenerAdded Pause,
             ListenerAdded Seeked, ListenerAdded VolumeChange]\<rparr>"
  by (simp add: short_loaded_with_def eval_defs)

section \<open>Dispatching an event to the registered listeners\<close>

lemma fold_listeners:
  "fold (\<lambda>l st. if l = ev then f st else st) ls s = (f ^^ count_list ls ev) s"
  by (induction ls arbitrary: s) (simp_all add: funpow_swap1)

lemma dispatch_funpow:
  "dispatch api ev s = (handler api ev ^^ count_list (listeners s) ev) s"
  by (simp add: dispatch_def fold_listeners)

lemma registered_count: "ev \<in> set ls \<Longrightarrow> \<exists>k. count_list ls ev = Suc k"
  by (metis count_list_0_iff not0_implies_Suc)

lemma dispatch_registered:
  assumes reg: "ev \<in> set (listeners s)"
  shows "\<exists>k. count_list (listeners s) ev = Suc k
            \<and> dispatch api ev s = (handler api ev ^^ Suc k) s"
proof -
  from registered_count [OF reg]
  obtain k where k: "count_list (listeners s) ev = Suc k" ..
  have "dispatch api ev s = (handler api ev ^^ Suc k) s"
    by (simp only: dispatch_funpow k)
  with k show ?thesis by (intro exI conjI)
qed

lemma handler_simps:
  "handler api Play = on_play api"
  "handler api Pause = on_pause"
  "handler api Seeked = on_seeked api"
  "handler api VolumeChange = on_volumechange api"
  by (simp_all add: handler_def)

lemma funpow_fixed: "f x = x \<Longrightarrow> (f ^^ n) x = x"
  by (induction n) simp_all

lemma funpow_idem:
  assumes "f (f s) = f s"
  shows "(f ^^ Suc n) s = f s"
proof -
  have "(f ^^ Suc n) s = (f ^^ n) (f s)"
    by (simp add: funpow_swap1)
  then show ?thesis using assms by (simp only: funpow_fixed)
qed

lemma concat_replicate_snoc:
  "concat (replicate k x) @ x = x @ concat (replicate k x)"
  by (induction k) simp_all

lemma play_el_eq:
  "play_el api i s =
     s\<lparr>elements := (elements s)[i := (if may_play api (host s)
                                       then start_playing (elements s ! i)
                                       else elements s ! i)],
       ops := ops s @ play_ops api i (host s)\<rparr>"
  by (simp add: play_el_def play_ops_def)

lemma funpow_Suc_outer: "(f ^^ Suc (Suc k)) s = f ((f ^^ Suc k) s)"
  by simp

section \<open>The seeked listener\<close>

lemma set_currentTime_twice [simp]:
  "set_currentTime t (set_currentTime u e) = set_currentTime t e"
  by (simp add: set_currentTime_def)

lemma duration_set_currentTime [simp]: "duration (set_currentTime t e) = duration e"
  by (simp add: set_currentTime_def)

lemma sync_eq:
  assumes "audioElement s = Some i"
  shows "sync api s =
     (if isNaN (duration (elements s ! i)) then s
      else s\<lparr>elements := (elements s)[i := set_currentTime (video_currentTime api (host s))
                                             (elements s ! i)],
             ops := ops s @ [PositionSet i (video_currentTime api (host s))]\<rparr>)"
  using assms by (simp add: sync_def)

lemma sync_funpow:
  assumes cur: "audioElement s = Some i" and len: "i < length (elements s)"
  shows "(sync api ^^ Suc k) s =
     (if isNaN (duration (elements s ! i)) then s
      else s\<lparr>elements := (elements s)[i := set_currentTime (video_currentTime api (host s))
                                             (elements s ! i)],
             ops := ops s @ replicate (Suc k)
                              (PositionSet i (video_currentTime api (host s)))\<rparr>)"
proof (cases "isNaN (duration (elements s ! i))")
  case True
  then have "sync api s = s" using cur by (simp add: sync_eq)
  then have "(sync api ^^ Suc k) s = s" by (rule funpow_fixed)
  with True show ?thesis by simp
next
  case False
  let ?after = "\<lambda>n. s\<lparr>elements := (elements s)[i := set_currentTime (video_currentTime api (host s))
                                             (elements s ! i)],
             ops := ops s @ replicate n (PositionSet i (video_currentTime api (host s)))\<rparr>"
  have "(sync api ^^ Suc k) s = ?after (Suc k)"
  proof (induction k)
    case 0
    show ?case using cur False by (simp add: sync_eq)
  next
    case (Suc k)
    have "(sync api ^^ Suc (Suc k)) s = sync api ((sync api ^^ Suc k) s)"
      by (rule funpow_Suc_outer)
    also have "\<dots> = sync api (?after (Suc k))"
      by (simp only: Suc.IH)
    also have "\<dots> = ?after (Suc (Suc k))"
      using cur len False
      by (subst sync_eq [where i = i]) (simp_all add: replicate_append_same)
    finally show ?case .
  qed
  with False show ?thesis by simp
qed

lemma dispatch_seeked:
  assumes cur: "audioElement s = Some i" and len: "i < length (elements s)"
    and reg: "Seeked \<in> set (listeners s)"
  shows "dispatch api Seeked s =
     (if isNaN (duration (elements s ! i)) then s
      else s\<lparr>elements := (elements s)[i := set_currentTime (video_currentTime api (host s))
                                             (elements s ! i)],
             ops := ops s @ replicate (count_list (listeners s) Seeked)
                              (PositionSet i (video_currentTime api (host s)))\<rparr>)"
proof -
  from dispatch_registered [OF reg, of api]
  obtain k where k: "count_list (listeners s) Seeked = Suc k"
    and d: "dispatch api Seeked s = (handler api Seeked ^^ Suc k) s" by (elim exE conjE)
  have h: "handler api Seeked = sync api"
    by (rule ext) (simp add: handler_simps on_seeked_def)
  show ?thesis
    unfolding d k h by (rule sync_funpow [OF cur len])
qed

text \<open>
  C6, as stated, asks that after a seeked event the audio element is at the position of
  the video whenever its duration is a number. The position written is brought into the
  media: with an audio element of 60 seconds and the video at 90, the audio element is
  at 60.
\<close>

theorem seeked_counterexample:
  "\<not> isNaN (duration (elements (short_loaded_with paused_at_90) ! 0))
   \<and> video_currentTime direct_api (host (short_loaded_with paused_at_90)) = 90
   \<and> currentTime (elements (dispatch direct_api Seeked (short_loaded_with paused_at_90)) ! 0)
        = 60"
  by (simp add: short_loaded_with_eq dispatch_def handler_def on_seeked_def sync_def
        set_currentTime_def clamp_time_def isNaN_def direct_api_def paused_at_90_def)

text \<open>
  C6, amended. The video element fires \<^verbatim>\<open>seeked\<close> in a session with a current audio
  element \<open>i\<close>. When the duration of that element is \<^verbatim>\<open>NaN\<close>, the session is
  exactly as before: the position is not written and nothing is logged. Otherwise every
  registered seeked listener assigns the position of the video to the element, whose
  position becomes that position brought into the media: the position of the video
  itself when it lies between 0 and the duration, and the end of the media when it lies
  behind it. Nothing else changes.
\<close>

theorem seeked_aligns_within_media:
  assumes cur: "audioElement s = Some i" and len: "i < length (elements s)"
    and reg: "Seeked \<in> set (listeners s)"
  shows "dispatch api Seeked s =
           (if isNaN (duration (elements s ! i)) then s
            else s\<lparr>elements :=
                     (elements s)[i := (elements s ! i)
                        \<lparr>currentTime := clamp_time (duration (elements s ! i))
                                          (video_currentTime api (host s))\<rparr>],
                   ops := ops s @ replicate (count_list (listeners s) Seeked)
                                    (PositionSet i (video_currentTime api (host s)))\<rparr>)
         \<and> currentTime (elements (dispatch api Seeked s) ! i) =
             (if isNaN (duration (elements s ! i)) then currentTime (elements s ! i)
              else clamp_time (duration (elements s ! i)) (video_currentTime api (host s)))
         \<and> (duration (elements s ! i) = Seconds d \<and> 0 \<le> video_currentTime api (host s)
              \<and> video_currentTime api (host s) \<le> d
             \<longrightarrow> currentTime (elements (dispatch api Seeked s) ! i)
                   = video_currentTime api (host s))
         \<and> (duration (elements s ! i) = Seconds d \<and> 0 \<le> d
              \<and> d \<le> video_currentTime api (host s)
             \<longrightarrow> currentTime (elements (dispatch api Seeked s) ! i) = d)
         \<and> (duration (elements s ! i) = Infinite \<and> 0 \<le> video_currentTime api (host s)
             \<longrightarrow> currentTime (elements (dispatch api Seeked s) ! i)
                   = video_currentTime api (host s))"
  using len
  by (simp add: dispatch_seeked [OF cur len reg] set_currentTime_def clamp_time_def isNaN_def)

theorem seeked_aligns_within_media_witness:
  "audioElement (loaded_with paused_at_30) = Some 0
   \<and> 0 < length (elements (loaded_with paused_at_30))
   \<and> Seeked \<in> set (listeners (loaded_with paused_at_30))
   \<and> duration (elements (loaded_with paused_at_30) ! 0) = Seconds 120
   \<and> video_currentTime direct_api (host (loaded_with paused_at_30)) = 30
   \<and> currentTime (elements (loaded_with paused_at_30) ! 0) = 0
   \<and> currentTime (elements (dispatch direct_api Seeked (loaded_with paused_at_30)) ! 0) = 30"
  using seeked_aligns_within_media [of "loaded_with paused_at_30" 0 direct_api 120]
  by (simp add: loaded_with_eq isNaN_def direct_api_def paused_at_30_def)

section \<open>The play listener\<close>

lemma duration_start_playing [simp]: "duration (start_playing e) = duration e"
  by (simp add: start_playing_def)

lemma duration_aligned_then_played [simp]:
  "duration (aligned_then_played api h e) = duration e"
  by (simp add: aligned_then_played_def Let_def)

lemma aligned_then_played_twice:
  "aligned_then_played api h (aligned_then_played api h e) = aligned_then_played api h e"
  by (simp add: aligned_then_played_def Let_def set_currentTime_def start_playing_def
        ended_def split: js_duration.split)

lemma play_listener_ops_same:
  "play_listener_ops api i h (aligned_then_played api h e) = play_listener_ops api i h e"
  by (simp add: play_listener_ops_def)

lemma on_play_eq:
  assumes "audioElement s = Some i" "i < length (elements s)"
  shows "on_play api s =
     s\<lparr>elements := (elements s)[i := aligned_then_played api (host s) (elements s ! i)],
       ops := ops s @ play_listener_ops api i (host s) (elements s ! i)\<rparr>"
  using assms
  by (simp add: on_play_def sync_def play_el_eq Let_def aligned_then_played_def
        play_listener_ops_def)

lemma on_play_funpow:
  assumes cur: "audioElement s = Some i" and len: "i < length (elements s)"
  shows "(on_play api ^^ Suc k) s =
     s\<lparr>elements := (elements s)[i := aligned_then_played api (host s) (elements s ! i)],
       ops := ops s @ concat (replicate (Suc k)
                                (play_listener_ops api i (host s) (elements s ! i)))\<rparr>"
    (is "_ = ?after (Suc k)")
proof (induction k)
  case 0
  show ?case using on_play_eq [OF cur len, of api] by simp
next
  case (Suc k)
  have "(on_play api ^^ Suc (Suc k)) s = on_play api ((on_play api ^^ Suc k) s)"
    by (rule funpow_Suc_outer)
  also have "\<dots> = on_play api (?after (Suc k))"
    by (simp only: Suc.IH)
  also have "\<dots> = ?after (Suc (Suc k))"
    using cur len
    by (subst on_play_eq [where i = i])
       (simp_all add: concat_replicate_snoc aligned_then_played_twice play_listener_ops_same)
  finally show ?case .
qed

lemma dispatch_play:
  assumes cur: "audioElement s = Some i" and len: "i < length (elements s)"
    and reg: "Play \<in> set (listeners s)"
  shows "dispatch api Play s =
     s\<lparr>elements := (elements s)[i := aligned_then_played api (host s) (elements s ! i)],
       ops := ops s @ concat (replicate (count_list (listeners s) Play)
                                (play_listener_ops api i (host s) (elements s ! i)))\<rparr>"
proof -
  from dispatch_registered [OF reg, of api]
  obtain k where k: "count_list (listeners s) Play = Suc k"
    and d: "dispatch api Play s = (handler api Play ^^ Suc k) s" by (elim exE conjE)
  show ?thesis
    unfolding d k handler_simps by (rule on_play_funpow [OF cur len])
qed

text \<open>
  C7, as stated, asks that a play event always leaves the audio element at the position
  of the video. With an audio element that has no duration yet the play listener
  requests playback without writing the position: the video is at 30, the audio element
  stays at 0. And with an audio element of 60 seconds and the video at 90, the position
  written is brought to the end of the audio, from where the playback requested next
  starts over: the audio element is at 0.
\<close>

theorem play_event_unloaded_counterexample:
  "video_currentTime direct_api (host (unloaded_with playing_at_30)) = 30
   \<and> currentTime (elements (dispatch direct_api Play (unloaded_with playing_at_30)) ! 0) = 0
   \<and> ops (dispatch direct_api Play (unloaded_with playing_at_30)) =
         ops (unloaded_with playing_at_30) @ [PlayRequested 0]
   \<and> video_currentTime direct_api (host (short_loaded_with playing_at_90)) = 90
   \<and> currentTime (elements (dispatch direct_api Play (short_loaded_with playing_at_90)) ! 0)
        = 0
   \<and> ops (dispatch direct_api Play (short_loaded_with playing_at_90)) =
         ops (short_loaded_with playing_at_90) @ [PositionSet 0 90, PlayRequested 0]"
  by (simp add: unloaded_with_eq short_loaded_with_eq dispatch_def handler_def on_play_def
        sync_def play_el_def set_currentTime_def clamp_time_def start_playing_def ended_def
        isNaN_def direct_api_def playing_at_30_def playing_at_90_def)

text \<open>
  C7, amended. The video element fires \<^verbatim>\<open>play\<close> in a session with a current audio
  element \<open>i\<close>. Every registered play listener first assigns the position of the
  video to the element when the element's duration is not \<^verbatim>\<open>NaN\<close> (no assignment is
  made otherwise) and then requests playback once, in this order. The assignment leaves
  the element at the position of the video when that lies inside the media. A request
  the platform rejects is written to the console and leaves the element's paused flag
  as it was; a request it grants starts the element, from the beginning when the
  position written was the end of the media or behind it. Nothing else in the session
  changes: no timer is started, no listener is added, and the result is an ordinary
  session.
\<close>

theorem play_event_aligns_when_loaded:
  assumes cur: "audioElement s = Some i" and len: "i < length (elements s)"
    and reg: "Play \<in> set (listeners s)"
  shows "dispatch api Play s =
     s\<lparr>elements := (elements s)[i := aligned_then_played api (host s) (elements s ! i)],
       ops := ops s @ concat (replicate (count_list (listeners s) Play)
                 ((if isNaN (duration (elements s ! i)) then []
                   else [PositionSet i (video_currentTime api (host s))])
                  @ (if may_play api (host s) then [PlayRequested i]
                     else [PlayRequested i, ConsoleError ''Audio play error:''])))\<rparr>
   \<and> currentTime (elements (dispatch api Play s) ! i) =
        (if isNaN (duration (elements s ! i)) then currentTime (elements s ! i)
         else if may_play api (host s)
                 \<and> ended (set_currentTime (video_currentTime api (host s)) (elements s ! i))
              then 0
              else clamp_time (duration (elements s ! i)) (video_currentTime api (host s)))
   \<and> (duration (elements s ! i) = Seconds d \<and> 0 \<le> video_currentTime api (host s)
        \<and> video_currentTime api (host s) < d
       \<longrightarrow> currentTime (elements (dispatch api Play s) ! i) = video_currentTime api (host s))
   \<and> paused (elements (dispatch api Play s) ! i) =
        (if may_play api (host s) then False else paused (elements s ! i))"
  using len
  by (simp add: dispatch_play [OF cur len reg] play_listener_ops_def play_ops_def
        aligned_then_played_def Let_def set_currentTime_def clamp_time_def start_playing_def
        ended_def isNaN_def)

theorem play_event_aligns_when_loaded_witness:
  "audioElement (loaded_with blocked_at_30) = Some 0
   \<and> 0 < length (elements (loaded_with blocked_at_30))
   \<and> Play \<in> set (listeners (loaded_with blocked_at_30))
   \<and> duration (elements (loaded_with blocked_at_30) ! 0) = Seconds 120
   \<and> \<not> may_play direct_api (host (loaded_with blocked_at_30))
   \<and> currentTime (elements (dispatch direct_api Play (loaded_with blocked_at_30)) ! 0) = 30
   \<and> paused (elements (dispatch direct_api Play (loaded_with blocked_at_30)) ! 0)
   \<and> ops (dispatch direct_api Play (loaded_with blocked_at_30)) =
         ops (loaded_with blocked_at_30)
           @ [PositionSet 0 30, PlayRequested 0, ConsoleError ''Audio play error:'']"
proof -
  have c: "audioElement (loaded_with blocked_at_30) = Some 0"
    and l: "0 < length (elements (loaded_with blocked_at_30))"
    and r: "Play \<in> set (listeners (loaded_with blocked_at_30))"
    by (simp_all add: loaded_with_eq)
  note e = play_event_aligns_when_loaded [OF c l r, of direct_api 120, THEN conjunct1]
  show ?thesis
    using c l r
    by (simp add: e)
       (simp add: loaded_with_eq aligned_then_played_def set_currentTime_def clamp_time_def
          isNaN_def direct_api_def blocked_at_30_def)
qed

section \<open>The volume listener\<close>

lemma on_volumechange_eq:
  assumes "\<not> isInitializing s" "audioElement s = Some i" "i < length (elements s)"
  shows "on_volumechange api s =
     s\<lparr>elements := (elements s)[i := mirrored api i s],
       ops := ops s @ (if resumes api i s then play_ops api i (host s) else [])\<rparr>"
  using assms
  by (simp add: on_volumechange_def play_el_eq Let_def resumes_def mirrored_def)

lemma mirrored_again:
  assumes len: "i < length (elements s)"
  shows "mirrored api i (s\<lparr>elements := (elements s)[i := mirrored api i s], ops := x\<rparr>)
           = mirrored api i s
         \<and> resumes api i (s\<lparr>elements := (elements s)[i := mirrored api i s], ops := x\<rparr>)
           = (resumes api i s \<and> \<not> may_play api (host s))"
  using len
  by (cases "elements s ! i")
     (auto simp: mirrored_def resumes_def Let_def start_playing_def ended_def
        split: js_duration.split)

lemma on_volumechange_funpow:
  assumes ini: "\<not> isInitializing s" and cur: "audioElement s = Some i"
    and len: "i < length (elements s)"
  shows "(on_volumechange api ^^ Suc k) s =
     s\<lparr>elements := (elements s)[i := mirrored api i s],
       ops := ops s @
         (if resumes api i s
          then (if may_play api (host s) then [PlayRequested i]
                else concat (replicate (Suc k) (play_ops api i (host s))))
          else [])\<rparr>"
    (is "_ = ?after (Suc k)")
proof (induction k)
  case 0
  show ?case using on_volumechange_eq [OF ini cur len, of api]
    by (simp add: play_ops_def)
next
  case (Suc k)
  have t: "\<not> isInitializing (?after (Suc k))" "audioElement (?after (Suc k)) = Some i"
    "i < length (elements (?after (Suc k)))"
    using ini cur len by simp_all
  have "(on_volumechange api ^^ Suc (Suc k)) s
          = on_volumechange api ((on_volumechange api ^^ Suc k) s)"
    by simp
  also have "\<dots> = on_volumechange api (?after (Suc k))"
    by (simp only: Suc.IH)
  also have "\<dots> = (?after (Suc k))
       \<lparr>elements := (elements (?after (Suc k)))[i := mirrored api i (?after (Suc k))],
        ops := ops (?after (Suc k)) @
                 (if resumes api i (?after (Suc k))
                  then play_ops api i (host (?after (Suc k))) else [])\<rparr>"
    by (rule on_volumechange_eq [OF t])
  also have "\<dots> = ?after (Suc (Suc k))"
    using len by (simp add: mirrored_again concat_replicate_snoc)
  finally show ?case .
qed

lemma dispatch_volumechange:
  assumes ini: "\<not> isInitializing s" and cur: "audioElement s = Some i"
    and len: "i < length (elements s)" and reg: "VolumeChange \<in> set (listeners s)"
  shows "dispatch api VolumeChange s =
     s\<lparr>elements := (elements s)[i := mirrored api i s],
       ops := ops s @
         (if resumes api i s
          then (if may_play api (host s) then [PlayRequested i]
                else concat (replicate (count_list (listeners s) VolumeChange)
                               (play_ops api i (host s))))
          else [])\<rparr>"
proof -
  from dispatch_registered [OF reg, of api]
  obtain k where k: "count_list (listeners s) VolumeChange = Suc k"
    and d: "dispatch api VolumeChange s = (handler api VolumeChange ^^ Suc k) s"
    by (elim exE conjE)
  show ?thesis
    unfolding d k handler_simps by (rule on_volumechange_funpow [OF ini cur len])
qed

text \<open>
  C8. The video element fires \<^verbatim>\<open>volumechange\<close> while \<open>isInitializing\<close> is off, in a
  session with a current audio element \<open>i\<close>. The element's volume and mute flag become
  those of the player. When the video is playing, the player is not muted and the
  element was paused, playback of the element is requested, and the element is playing
  afterwards when the platform allows it. The request is made once when it succeeds and
  once per registered listener when the platform rejects it.
\<close>

theorem volumechange_mirrors_and_resumes:
  assumes ini: "\<not> isInitializing s" and cur: "audioElement s = Some i"
    and len: "i < length (elements s)" and reg: "VolumeChange \<in> set (listeners s)"
  shows "dispatch api VolumeChange s =
     s\<lparr>elements := (elements s)[i := mirrored api i s],
       ops := ops s @
         (if resumes api i s
          then (if may_play api (host s) then [PlayRequested i]
                else concat (replicate (count_list (listeners s) VolumeChange)
                               [PlayRequested i, ConsoleError ''Audio play error:'']))
          else [])\<rparr>
   \<and> volume (elements (dispatch api VolumeChange s) ! i) = art_volume api (host s)
   \<and> muted (elements (dispatch api VolumeChange s) ! i) = art_muted api (host s)
   \<and> (\<not> video_paused api (host s) \<and> \<not> art_muted api (host s) \<and> paused (elements s ! i)
        \<longrightarrow> PlayRequested i \<in> set (drop (length (ops s)) (ops (dispatch api VolumeChange s)))
            \<and> (may_play api (host s)
                 \<longrightarrow> \<not> paused (elements (dispatch api VolumeChange s) ! i)))"
proof -
  from registered_count [OF reg]
  obtain k where k: "count_list (listeners s) VolumeChange = Suc k" ..
  show ?thesis
    using len
    by (simp add: dispatch_volumechange [OF ini cur len reg] k play_ops_def
          resumes_def mirrored_def Let_def start_playing_def)
qed

theorem volumechange_mirrors_and_resumes_witness:
  "\<not> isInitializing (loaded_with playing_at_30)
   \<and> audioElement (loaded_with playing_at_30) = Some 0
   \<and> 0 < length (elements (loaded_with playing_at_30))
   \<and> VolumeChange \<in> set (listeners (loaded_with playing_at_30))
   \<and> \<not> video_paused direct_api (host (loaded_with playing_at_30))
   \<and> \<not> art_muted direct_api (host (loaded_with playing_at_30))
   \<and> paused (elements (loaded_with playing_at_30) ! 0)
   \<and> volume (elements (loaded_with playing_at_30) ! 0) = 0
   \<and> volume (elements (dispatch direct_api VolumeChange (loaded_with playing_at_30)) ! 0) = 1
   \<and> \<not> muted (elements (dispatch direct_api VolumeChange (loaded_with playing_at_30)) ! 0)
   \<and> \<not> paused (elements (dispatch direct_api VolumeChange (loaded_with playing_at_30)) ! 0)
   \<and> ops (dispatch direct_api VolumeChange (loaded_with playing_at_30)) =
         ops (loaded_with playing_at_30) @ [PlayRequested 0]"
  using volumechange_mirrors_and_resumes [of "loaded_with playing_at_30" 0 direct_api]
  by (simp add: loaded_with_eq resumes_def mirrored_def Let_def start_playing_def
        direct_api_def playing_at_30_def)

section \<open>Selecting a value that is no track\<close>

text \<open>
  C10. When the selection callback is called with a value that is the URL of no
  configured audio track, the session is returned exactly as it was (the current track,
  the audio elements, the listeners and the recorded operations are the same), and the
  text returned is the label of the current track.
\<close>

theorem onSelect_unknown_value:
  assumes "\<forall>t \<in> set audioTracksArray. t_url t \<noteq> i_value item"
  shows "onSelect api audioTracksArray item s = (s, t_html (currentAudioTrack s))"
proof -
  have "find (\<lambda>t. t_url t = i_value item) audioTracksArray = None"
    using assms by (simp add: find_None_iff)
  then show ?thesis by (simp add: onSelect_def)
qed

theorem onSelect_unknown_value_witness:
  "t_url track_a \<noteq> i_value other_item
   \<and> t_url track_b \<noteq> i_value other_item
   \<and> onSelect direct_api two_tracks other_item (loaded_with playing_at_30)
       = (loaded_with playing_at_30, ''Original'')"
  using onSelect_unknown_value [of two_tracks other_item direct_api "loaded_with playing_at_30"]
  by (simp add: two_tracks_def track_a_def track_b_def other_item_def loaded_with_eq)


section \<open>Creating an audio element\<close>

lemma listeners_pause_el [simp]: "listeners (pause_el i s) = listeners s"
  by (simp add: pause_el_def)

lemma listeners_remove_el [simp]: "listeners (remove_el i s) = listeners s"
  by (simp add: remove_el_def)

lemma listeners_play_el [simp]: "listeners (play_el api i s) = listeners s"
  by (simp add: play_el_def)

lemma listeners_sync [simp]: "listeners (sync api s) = listeners s"
  by (simp add: sync_def split: option.split)

lemma listeners_createAudioElement:
  "listeners (createAudioElement api u s) = listeners s @ [Play, Pause, Seeked, VolumeChange]"
  by (simp add: createAudioElement_def Let_def split: option.split)

lemma listeners_fold_create:
  "listeners (fold (createAudioElement api) urls s) =
     listeners s @ concat (replicate (length urls) [Play, Pause, Seeked, VolumeChange])"
proof (induction urls arbitrary: s)
  case Nil
  show ?case by simp
next
  case (Cons u urls)
  show ?case
    by (simp add: Cons.IH listeners_createAudioElement)
qed

lemma count_concat_replicate:
  "count_list (concat (replicate n [Play, Pause, Seeked, VolumeChange])) ev = n"
  by (induction n) (cases ev; simp)+

text \<open>
  What \<open>createAudioElement\<close> does to a session that has a current audio element
  \<open>i\<close>, and to one that has none. The new element is the next index of the store.
  Its position is 0 and its duration \<^verbatim>\<open>NaN\<close>, whatever the position of the video:
  the \<open>sync\<close> of line 180 finds no duration and writes nothing.
\<close>

lemma createAudioElement_switch:
  assumes cur: "audioElement s = Some i" and len: "i < length (elements s)"
  shows "createAudioElement api u s =
     s\<lparr>elements :=
         (elements s)[i := (elements s ! i)\<lparr>paused := True, attached := False\<rparr>]
         @ [new_audio\<lparr>src := u, crossOrigin := ''anonymous'', display := ''none'',
                      attached := True, volume := art_volume api (host s),
                      muted := art_muted api (host s),
                      paused := (video_paused api (host s) \<or> \<not> may_play api (host s))\<rparr>],
       audioElement := Some (length (elements s)),
       listeners := listeners s @ [Play, Pause, Seeked, VolumeChange],
       ops := ops s @ [Paused i, Removed i, Created (length (elements s)),
                       Appended (length (elements s)), ListenerAdded Play, ListenerAdded Pause,
                       ListenerAdded Seeked, ListenerAdded VolumeChange]
                @ (if video_paused api (host s) then []
                   else play_ops api (length (elements s)) (host s))\<rparr>"
  using assms
  by (simp add: createAudioElement_def Let_def pause_el_def remove_el_def sync_def
        play_el_def play_ops_def isNaN_def new_audio_def nth_append list_update_append
        start_playing_def ended_def)

lemma createAudioElement_first:
  assumes cur: "audioElement s = None"
  shows "createAudioElement api u s =
     s\<lparr>elements :=
         elements s
         @ [new_audio\<lparr>src := u, crossOrigin := ''anonymous'', display := ''none'',
                      attached := True, volume := art_volume api (host s),
                      muted := art_muted api (host s),
                      paused := (video_paused api (host s) \<or> \<not> may_play api (host s))\<rparr>],
       audioElement := Some (length (elements s)),
       listeners := listeners s @ [Play, Pause, Seeked, VolumeChange],
       ops := ops s @ [Created (length (elements s)),
                       Appended (length (elements s)), ListenerAdded Play, ListenerAdded Pause,
                       ListenerAdded Seeked, ListenerAdded VolumeChange]
                @ (if video_paused api (host s) then []
                   else play_ops api (length (elements s)) (host s))\<rparr>"
  using assms
  by (simp add: createAudioElement_def Let_def pause_el_def remove_el_def sync_def
        play_el_def play_ops_def isNaN_def new_audio_def nth_append list_update_append
        start_playing_def ended_def)

lemma createAudioElement_position:
  assumes "case audioElement s of None \<Rightarrow> True | Some i \<Rightarrow> i < length (elements s)"
  shows "currentTime (elements (createAudioElement api u s) ! length (elements s)) = 0"
proof (cases "audioElement s")
  case None
  then show ?thesis
    by (simp add: createAudioElement_first new_audio_def)
next
  case (Some i)
  with assms have "i < length (elements s)" by simp
  with Some show ?thesis
    by (simp add: createAudioElement_switch new_audio_def nth_append)
qed

lemma synced_playing_eq:
  "synced_playing =
     \<lparr>host = playing_at_30,
      elements = [\<lparr>src = ''a.mp3'', crossOrigin = ''anonymous'', display = ''none'',
                   attached = True, paused = False, currentTime = 30,
                   duration = Seconds 120, volume = 0, muted = False\<rparr>],
      audioElement = Some 0, isInitializing = False, currentAudioTrack = track_a,
      listeners = [Play, Pause, Seeked, VolumeChange], timers = 0,
      ops = [Created 0, Appended 0, ListenerAdded Play, ListenerAdded Pause,
             ListenerAdded Seeked, ListenerAdded VolumeChange, PositionSet 0 30,
             PlayRequested 0]\<rparr>"
  by (simp add: synced_playing_def loaded_with_eq dispatch_def handler_def on_play_def
        sync_def play_el_def set_currentTime_def clamp_time_def start_playing_def ended_def
        isNaN_def direct_api_def playing_at_30_def)

lemma switched_while_playing_eq:
  "switched_while_playing =
     \<lparr>host = playing_at_30,
      elements = [\<lparr>src = ''a.mp3'', crossOrigin = ''anonymous'', display = ''none'',
                   attached = False, paused = True, currentTime = 30,
                   duration = Seconds 120, volume = 0, muted = False\<rparr>,
                  \<lparr>src = ''b.mp3'', crossOrigin = ''anonymous'', display = ''none'',
                   attached = True, paused = False, currentTime = 0,
                   duration = NaN, volume = 1, muted = False\<rparr>],
      audioElement = Some 1, isInitializing = False, currentAudioTrack = track_b,
      listeners = [Play, Pause, Seeked, VolumeChange, Play, Pause, Seeked, VolumeChange],
      timers = 0,
      ops = [Created 0, Appended 0, ListenerAdded Play, ListenerAdded Pause,
             ListenerAdded Seeked, ListenerAdded VolumeChange, PositionSet 0 30,
             PlayRequested 0, Paused 0, Removed 0, Created 1, Appended 1, ListenerAdded Play,
             ListenerAdded Pause, ListenerAdded Seeked, ListenerAdded VolumeChange,
             PlayRequested 1]\<rparr>"
  by (simp add: switched_while_playing_def synced_playing_eq onSelect_def two_tracks_def
        track_a_def track_b_def item_b_def createAudioElement_switch play_ops_def
        new_audio_def direct_api_def playing_at_30_def)

text \<open>
  C1. The track is switched while the video plays at 30 and the current audio element
  plays at 30. The old element is paused and removed before the new one is created, the
  new element has the new URL, and its playback is requested once, after the listeners
  are registered. The position is not carried over: the new element is at 0 while the
  video is at 30.
\<close>

theorem switchTrack_restarts_at_zero:
  "video_currentTime direct_api (host synced_playing) = 30
   \<and> \<not> video_paused direct_api (host synced_playing)
   \<and> audioElement synced_playing = Some 0
   \<and> currentTime (elements synced_playing ! 0) = 30
   \<and> \<not> paused (elements synced_playing ! 0)
   \<and> audioElement switched_while_playing = Some 1
   \<and> src (elements switched_while_playing ! 1) = ''b.mp3''
   \<and> attached (elements switched_while_playing ! 1)
   \<and> \<not> paused (elements switched_while_playing ! 1)
   \<and> paused (elements switched_while_playing ! 0)
   \<and> \<not> attached (elements switched_while_playing ! 0)
   \<and> video_currentTime direct_api (host switched_while_playing) = 30
   \<and> currentTime (elements switched_while_playing ! 1) = 0
   \<and> ops switched_while_playing =
         ops synced_playing
           @ [Paused 0, Removed 0, Created 1, Appended 1, ListenerAdded Play,
              ListenerAdded Pause, ListenerAdded Seeked, ListenerAdded VolumeChange,
              PlayRequested 1]"
  by (simp add: synced_playing_eq switched_while_playing_eq direct_api_def playing_at_30_def)

section \<open>Listeners are never removed\<close>

lemma run_append: "run api tracks (es @ fs) s = run api tracks fs (run api tracks es s)"
  by (simp add: run_def)

lemma run_Cons: "run api tracks (e # es) s = run api tracks es (step api tracks e s)"
  by (simp add: run_def)

lemma run_Nil: "run api tracks [] s = s"
  by (simp add: run_def)

lemma listeners_on_play [simp]: "listeners (on_play api s) = listeners s"
  by (simp add: on_play_def Let_def split: option.split)

lemma listeners_on_pause [simp]: "listeners (on_pause s) = listeners s"
  by (simp add: on_pause_def split: option.split)

lemma listeners_on_volumechange [simp]: "listeners (on_volumechange api s) = listeners s"
  by (simp add: on_volumechange_def Let_def split: option.split)

lemma listeners_handler [simp]: "listeners (handler api ev s) = listeners s"
  by (cases ev) (simp_all add: handler_def on_seeked_def)

lemma listeners_funpow:
  fixes f :: "'h session \<Rightarrow> 'h session"
  assumes "\<And>s. listeners (f s) = listeners s"
  shows "listeners ((f ^^ k) s) = listeners s"
proof (induction k)
  case 0
  show ?case by simp
next
  case (Suc k)
  have "listeners ((f ^^ Suc k) s) = listeners (f ((f ^^ k) s))" by simp
  also have "\<dots> = listeners ((f ^^ k) s)" by (rule assms)
  finally show ?case using Suc by simp
qed

lemma listeners_dispatch [simp]: "listeners (dispatch api ev s) = listeners s"
  unfolding dispatch_funpow by (rule listeners_funpow) simp

lemma listeners_detach [simp]: "listeners (detach s) = listeners s"
  by (simp add: detach_def split: option.split)

lemma listeners_destroy [simp]: "listeners (destroy b s) = listeners s"
  by (simp add: destroy_def Let_def)

lemma listeners_step:
  "listeners (step api tracks e s) =
     listeners s @ (if creates tracks e s then [Play, Pause, Seeked, VolumeChange] else [])"
proof (cases e)
  case Ready
  then show ?thesis
    by (simp add: step_def creates_def on_ready_def Let_def listeners_createAudioElement)
next
  case (Select item)
  then show ?thesis
    by (simp add: step_def creates_def onSelect_def listeners_createAudioElement
          split: option.split)
qed (simp_all add: step_def creates_def guard_elapsed_def onBeforeUnmount_def)

lemma listeners_run:
  "listeners (run api tracks es s) =
     listeners s @ concat (replicate (creations api tracks es s)
                                     [Play, Pause, Seeked, VolumeChange])"
proof (induction es arbitrary: s)
  case Nil
  show ?case by (simp add: run_Nil)
next
  case (Cons e es)
  show ?case
    by (simp add: run_Cons Cons.IH listeners_step)
qed

lemma busy_session_eval:
  "creations direct_api two_tracks busy_events (initial_session track_a playing_at_30) = 2
   \<and> listeners busy_session =
        [Play, Pause, Seeked, VolumeChange, Play, Pause, Seeked, VolumeChange]"
  by (simp add: busy_session_def busy_events_def creates_def eval_defs dispatch_def
        handler_def on_play_def on_seeked_def onSelect_def item_b_def other_item_def
        destroy_def detach_def pause_el_def remove_el_def set_currentTime_def
        start_playing_def ended_def clamp_time_def)


text \<open>
  C3, as stated, asks that no event of the video element has more than one listener
  of the component, however often the track is switched. After one switch the video
  element has two listeners for \<^verbatim>\<open>play\<close>.
\<close>

theorem listeners_duplicated_counterexample:
  "count_list (listeners synced_playing) Play = 1
   \<and> count_list (listeners switched_while_playing) Play = 2
   \<and> \<not> distinct (listeners switched_while_playing)"
  by (simp add: synced_playing_eq switched_while_playing_eq)

text \<open>
  C3, amended. The component never removes a listener from the video element: whatever
  happens to a session, the listeners it had are still registered afterwards, in their
  order. An event adds listeners exactly when it makes the component call
  \<open>createAudioElement\<close> (ready with a track URL, or a track switch), and then it adds
  four, one for each of \<^verbatim>\<open>play\<close>, \<^verbatim>\<open>pause\<close>, \<^verbatim>\<open>seeked\<close> and
  \<^verbatim>\<open>volumechange\<close>, behind those already there. So over any run each of the four
  events gains as many listeners as there were calls, and neither the listeners
  themselves nor the timer callback, destroy or unmount take any away.
\<close>

theorem listeners_accumulate:
  "listeners (step api tracks e s) =
     listeners s @ (if creates tracks e s then [Play, Pause, Seeked, VolumeChange] else [])
   \<and> listeners (run api tracks es s) =
       listeners s @ concat (replicate (creations api tracks es s)
                                       [Play, Pause, Seeked, VolumeChange])
   \<and> count_list (listeners (run api tracks es s)) ev =
       count_list (listeners s) ev + creations api tracks es s
   \<and> listeners (fold (createAudioElement api) urls s) =
       listeners s @ concat (replicate (length urls) [Play, Pause, Seeked, VolumeChange])
   \<and> listeners (dispatch api ev s) = listeners s
   \<and> listeners (guard_elapsed api s) = listeners s
   \<and> listeners (destroy b s) = listeners s
   \<and> listeners (onBeforeUnmount s) = listeners s"
  by (simp add: listeners_step listeners_run listeners_fold_create count_concat_replicate
        guard_elapsed_def onBeforeUnmount_def)

theorem listeners_accumulate_witness:
  "creations direct_api two_tracks busy_events (initial_session track_a playing_at_30) = 2
   \<and> listeners (initial_session track_a playing_at_30) = []
   \<and> listeners busy_session =
        [Play, Pause, Seeked, VolumeChange, Play, Pause, Seeked, VolumeChange]
   \<and> count_list (listeners busy_session) Play = 2"
proof -
  note a = listeners_accumulate [of direct_api two_tracks Ready
      "initial_session track_a playing_at_30" busy_events Play "[]" False, THEN conjunct2]
  have c: "creations direct_api two_tracks busy_events
             (initial_session track_a playing_at_30) = 2"
    using busy_session_eval by (elim conjE)
  have l: "listeners (initial_session track_a playing_at_30) = []"
    by (simp add: initial_session_def)
  from a have "listeners busy_session =
      listeners (initial_session track_a playing_at_30)
        @ concat (replicate (creations direct_api two_tracks busy_events
                     (initial_session track_a playing_at_30))
                   [Play, Pause, Seeked, VolumeChange])"
    unfolding busy_session_def by (elim conjE)
  then have "listeners busy_session =
        [Play, Pause, Seeked, VolumeChange, Play, Pause, Seeked, VolumeChange]"
    by (simp add: c l numeral_2_eq_2)
  then show ?thesis using c l by simp
qed

section \<open>The guard window after ready\<close>

lemma on_volumechange_guarded: "isInitializing s \<Longrightarrow> on_volumechange api s = s"
  by (simp add: on_volumechange_def)

lemma dispatch_volumechange_guarded:
  assumes "isInitializing s"
  shows "dispatch api VolumeChange s = s"
  unfolding dispatch_funpow handler_simps
  by (rule funpow_fixed) (rule on_volumechange_guarded [OF assms])

lemma run_window:
  assumes "isInitializing s"
  shows "run api tracks (window_events hs) s = s\<lparr>host := last (host s # hs)\<rparr>"
  using assms
proof (induction hs arbitrary: s)
  case Nil
  show ?case by (simp add: window_events_def run_Nil)
next
  case (Cons h hs)
  have w: "window_events (h # hs) = HostSet h # Video VolumeChange # window_events hs"
    by (simp add: window_events_def)
  have g: "isInitializing (s\<lparr>host := h\<rparr>)" using Cons.prems by simp
  have "run api tracks (window_events (h # hs)) s
          = run api tracks (window_events hs) (s\<lparr>host := h\<rparr>)"
    by (simp add: w run_Cons step_def dispatch_volumechange_guarded [OF g])
  also have "\<dots> = s\<lparr>host := h\<rparr>\<lparr>host := last (host (s\<lparr>host := h\<rparr>) # hs)\<rparr>"
    by (rule Cons.IH [OF g])
  also have "\<dots> = s\<lparr>host := last (host s # h # hs)\<rparr>"
    by simp
  finally show ?case .
qed

lemma on_ready_facts:
  assumes url: "t_url (currentAudioTrack s) \<noteq> []"
    and ok: "case audioElement s of None \<Rightarrow> True | Some i \<Rightarrow> i < length (elements s)"
  shows "isInitializing (on_ready api s)
    \<and> host (on_ready api s) = video_set_volume api 0 (host s)
    \<and> timers (on_ready api s) = Suc (timers s)
    \<and> audioElement (on_ready api s) = Some (length (elements s))
    \<and> volume (elements (on_ready api s) ! length (elements s)) =
           art_volume api (video_set_volume api 0 (host s))
    \<and> muted (elements (on_ready api s) ! length (elements s)) =
           art_muted api (video_set_volume api 0 (host s))"
proof -
  let ?s3 = "s\<lparr>isInitializing := True, host := video_set_volume api 0 (host s),
               timers := Suc (timers s)\<rparr>"
  have r: "on_ready api s = createAudioElement api (t_url (currentAudioTrack s)) ?s3"
    using url by (simp add: on_ready_def Let_def)
  show ?thesis
  proof (cases "audioElement s")
    case None
    then have c: "audioElement ?s3 = None" by simp
    show ?thesis
      by (simp add: r createAudioElement_first [OF c] new_audio_def)
  next
    case (Some i)
    then have c: "audioElement ?s3 = Some i" by simp
    from Some ok have l: "i < length (elements ?s3)" by simp
    show ?thesis
      by (simp add: r createAudioElement_switch [OF c l] new_audio_def nth_append)
  qed
qed

text \<open>
  What the ready handler, the window and the timer callback do on any host. The ready
  handler sets the guard, sets the volume of the video element to 0 and creates the
  audio element with the volume and mute flag the player reports at that moment. While
  the guard is set, volumechange events change nothing in the session. The timer
  callback sets the player's volume to 1 and its mute flag to false and clears the
  guard; it does not write the audio element itself.
\<close>

lemma guard_window_run:
  assumes url: "t_url (currentAudioTrack s) \<noteq> []"
    and ok: "case audioElement s of None \<Rightarrow> True | Some i \<Rightarrow> i < length (elements s)"
  shows "isInitializing (on_ready api s)
    \<and> host (on_ready api s) = video_set_volume api 0 (host s)
    \<and> audioElement (on_ready api s) = Some (length (elements s))
    \<and> run api tracks (window_events hs) (on_ready api s) =
          (on_ready api s)\<lparr>host := last (host (on_ready api s) # hs)\<rparr>
    \<and> run api tracks (Ready # window_events hs @ [GuardElapsed]) s =
          (on_ready api s)
            \<lparr>host := art_set_muted api False
                       (art_set_volume api 1 (last (host (on_ready api s) # hs))),
             isInitializing := False, timers := timers s\<rparr>
    \<and> volume (elements (run api tracks (Ready # window_events hs @ [GuardElapsed]) s)
                 ! length (elements s)) =
          art_volume api (video_set_volume api 0 (host s))
    \<and> muted (elements (run api tracks (Ready # window_events hs @ [GuardElapsed]) s)
                 ! length (elements s)) =
          art_muted api (video_set_volume api 0 (host s))"
proof -
  note f = on_ready_facts [OF url ok, of api]
  from f have g: "isInitializing (on_ready api s)" by simp
  have w: "run api tracks (window_events hs) (on_ready api s) =
          (on_ready api s)\<lparr>host := last (host (on_ready api s) # hs)\<rparr>"
    by (rule run_window [OF g])
  have e: "run api tracks (Ready # window_events hs @ [GuardElapsed]) s =
          (on_ready api s)
            \<lparr>host := art_set_muted api False
                       (art_set_volume api 1 (last (host (on_ready api s) # hs))),
             isInitializing := False, timers := timers s\<rparr>"
    using f by (simp add: run_Cons run_append run_Nil w step_def guard_elapsed_def)
  show ?thesis
    using f by (simp add: w e del: last.simps)
qed


lemma on_ready_session:
  assumes url: "t_url (currentAudioTrack s) \<noteq> []"
    and ok: "case audioElement s of None \<Rightarrow> True | Some i \<Rightarrow> i < length (elements s)"
  shows "length (elements (on_ready api s)) = Suc (length (elements s))
         \<and> VolumeChange \<in> set (listeners (on_ready api s))"
proof -
  let ?s3 = "s\<lparr>isInitializing := True, host := video_set_volume api 0 (host s),
               timers := Suc (timers s)\<rparr>"
  have r: "on_ready api s = createAudioElement api (t_url (currentAudioTrack s)) ?s3"
    using url by (simp add: on_ready_def Let_def)
  show ?thesis
  proof (cases "audioElement s")
    case None
    then have c: "audioElement ?s3 = None" by simp
    show ?thesis by (simp add: r createAudioElement_first [OF c])
  next
    case (Some i)
    then have c: "audioElement ?s3 = Some i" by simp
    from Some ok have l: "i < length (elements ?s3)" by simp
    show ?thesis by (simp add: r createAudioElement_switch [OF c l])
  qed
qed

text \<open>
  What lines 193-197 rely on: on a host whose player volume is the volume of the video
  element, the write of the timer callback changes the volume whenever it is not 1
  already, the browser announces the change, and the volume listener, no longer
  guarded, copies volume 1 and the cleared mute flag to the audio element.
\<close>

lemma guard_window_then_announced:
  assumes url: "t_url (currentAudioTrack s) \<noteq> []"
    and ok: "case audioElement s of None \<Rightarrow> True | Some i \<Rightarrow> i < length (elements s)"
  shows "volume (elements (run direct_api tracks
                     (Ready # window_events hs @ [GuardElapsed, Video VolumeChange]) s)
                 ! length (elements s)) = 1
         \<and> \<not> muted (elements (run direct_api tracks
                     (Ready # window_events hs @ [GuardElapsed, Video VolumeChange]) s)
                 ! length (elements s))"
proof -
  let ?n = "length (elements s)"
  let ?g = "run direct_api tracks (Ready # window_events hs @ [GuardElapsed]) s"
  note w = guard_window_run [OF url ok, of direct_api tracks hs]
  from w have e: "?g = (on_ready direct_api s)
            \<lparr>host := art_set_muted direct_api False
                       (art_set_volume direct_api 1 (last (host (on_ready direct_api s) # hs))),
             isInitializing := False, timers := timers s\<rparr>"
    by (elim conjE)
  from w have a: "audioElement (on_ready direct_api s) = Some ?n"
    by (elim conjE)
  note o = on_ready_session [OF url ok, of direct_api]
  have g: "\<not> isInitializing ?g" "audioElement ?g = Some ?n" "?n < length (elements ?g)"
    "VolumeChange \<in> set (listeners ?g)"
    using a o by (simp_all add: e)
  have v: "art_volume direct_api (host ?g) = 1" "\<not> art_muted direct_api (host ?g)"
    unfolding e by (simp_all add: direct_api_def)
  have "run direct_api tracks
          (Ready # window_events hs @ [GuardElapsed, Video VolumeChange]) s
        = dispatch direct_api VolumeChange ?g"
    using run_append [of direct_api tracks "Ready # window_events hs @ [GuardElapsed]"
                        "[Video VolumeChange]" s]
    by (simp add: run_Cons run_Nil step_def)
  then show ?thesis
    using g(3) v
    by (simp add: dispatch_volumechange [OF g] mirrored_def Let_def start_playing_def)
qed

text \<open>
  C2. The player gets ready on the concrete host, and the audio element is created with
  volume 0, the volume the video element has just been given. Inside the window the
  host puts the video volume back to 1 and announces it; the guarded listener ignores
  the announcement. The timer callback then writes 1 over 1: the host is as it was, so
  no change is announced and no listener runs. The player is at full volume and not
  muted, the guard is cleared, and the audio element still has volume 0.
\<close>

theorem guard_window_stuck_at_zero:
  "isInitializing in_window
   \<and> audioElement in_window = Some 0
   \<and> volume (elements in_window ! 0) = 0
   \<and> art_volume direct_api (host in_window) = 1
   \<and> host after_window = host in_window
   \<and> \<not> isInitializing after_window
   \<and> timers after_window = 0
   \<and> art_volume direct_api (host after_window) = 1
   \<and> \<not> art_muted direct_api (host after_window)
   \<and> audioElement after_window = Some 0
   \<and> volume (elements after_window ! 0) = 0"
  by (simp add: in_window_def after_window_def window_events_def reset_to_full_def eval_defs
        dispatch_def handler_def on_volumechange_def)

section \<open>At most one audio element in the document\<close>

lemma fold_neutral: "list_all neutral xs \<Longrightarrow> fold apply_op xs A = A"
  by (induction xs arbitrary: A) (auto simp: neutral_def apply_op_def split: dom_op.splits)

lemma at_most_one_append:
  "at_most_one_from A (xs @ ys) \<longleftrightarrow>
     at_most_one_from A xs \<and> at_most_one_from (fold apply_op xs A) ys"
proof (induction xs arbitrary: A)
  case Nil
  show ?case by (cases ys) auto
next
  case (Cons x xs)
  show ?case by (simp add: Cons.IH)
qed

lemma at_most_one_neutral:
  "list_all neutral xs \<Longrightarrow> at_most_one_from A xs \<longleftrightarrow> card A \<le> 1"
proof (induction xs arbitrary: A)
  case Nil
  show ?case by simp
next
  case (Cons x xs)
  then have "apply_op x A = A"
    by (auto simp: neutral_def apply_op_def split: dom_op.splits)
  with Cons show ?case by simp
qed

lemma at_most_one_final: "at_most_one_from A xs \<Longrightarrow> card (fold apply_op xs A) \<le> 1"
  by (induction xs arbitrary: A) simp_all



lemma quiet_refl: "quiet_step s s"
  by (simp add: quiet_step_def)

lemma quiet_trans:
  assumes a: "quiet_step s t" and b: "quiet_step t u"
  shows "quiet_step s u"
proof -
  from a obtain n1 where n1: "ops t = ops s @ n1" "list_all neutral n1"
    by (auto simp: quiet_step_def)
  from b obtain n2 where n2: "ops u = ops t @ n2" "list_all neutral n2"
    by (auto simp: quiet_step_def)
  have "ops u = ops s @ (n1 @ n2)" "list_all neutral (n1 @ n2)"
    using n1 n2 by simp_all
  then have "\<exists>new. ops u = ops s @ new \<and> list_all neutral new" by blast
  with a b show ?thesis by (simp add: quiet_step_def)
qed

lemma quiet_funpow:
  assumes "\<And>s. quiet_step s (f s)"
  shows "quiet_step s ((f ^^ k) s)"
proof (induction k)
  case 0
  show ?case by (simp add: quiet_refl)
next
  case (Suc k)
  have "quiet_step ((f ^^ k) s) (f ((f ^^ k) s))" by (rule assms)
  with Suc show ?case by (simp add: quiet_trans)
qed

lemma nth_update_same:
  assumes "\<And>e. g (f e) = g e"
  shows "g (xs[i := f (xs ! i)] ! j) = g (xs ! j)"
proof (cases "i < length xs")
  case True
  then show ?thesis by (cases "i = j") (simp_all add: assms)
next
  case False
  then show ?thesis by (simp add: list_update_beyond)
qed

lemma attached_kept [simp]:
  "attached (xs[i := (xs ! i)\<lparr>paused := b\<rparr>] ! j) = attached (xs ! j)"
  "attached (xs[i := set_currentTime t (xs ! i)] ! j) = attached (xs ! j)"
  "attached (xs[i := start_playing (xs ! i)] ! j) = attached (xs ! j)"
  "attached (xs[i := (xs ! i)\<lparr>duration := d\<rparr>] ! j) = attached (xs ! j)"
  "attached (xs[i := (xs ! i)\<lparr>volume := v, muted := m\<rparr>] ! j) = attached (xs ! j)"
  by (rule nth_update_same, simp add: set_currentTime_def start_playing_def)+

lemma paused_kept [simp]:
  "paused (xs[i := set_currentTime t (xs ! i)] ! j) = paused (xs ! j)"
  "paused (xs[i := (xs ! i)\<lparr>duration := d\<rparr>] ! j) = paused (xs ! j)"
  "paused (xs[i := (xs ! i)\<lparr>volume := v, muted := m\<rparr>] ! j) = paused (xs ! j)"
  by (rule nth_update_same, simp add: set_currentTime_def)+

lemma quiet_pause_el: "quiet_step s (pause_el i s)" if "audioElement s = Some i"
proof -
  have "\<exists>new. ops (pause_el i s) = ops s @ new \<and> list_all neutral new"
    by (rule exI [of _ "[Paused i]"]) (simp add: pause_el_def neutral_def)
  then show ?thesis
    using that by (simp add: quiet_step_def pause_el_def)
qed

lemma quiet_play_el: "quiet_step s (play_el api i s)" if "audioElement s = Some i"
proof -
  have "\<exists>new. ops (play_el api i s) = ops s @ new \<and> list_all neutral new"
    by (rule exI [of _ "play_ops api i (host s)"])
       (simp add: play_el_eq play_ops_def neutral_def)
  then show ?thesis
    using that by (simp add: quiet_step_def play_el_eq)
qed

lemma quiet_sync: "quiet_step s (sync api s)"
proof -
  have "\<exists>new. ops (sync api s) = ops s @ new \<and> list_all neutral new"
  proof (cases "audioElement s")
    case None
    then have "ops (sync api s) = ops s @ [] \<and> list_all neutral []"
      by (simp add: sync_def)
    then show ?thesis by (rule exI)
  next
    case (Some i)
    then have "ops (sync api s) =
        ops s @ (if isNaN (duration (elements s ! i)) then []
                 else [PositionSet i (video_currentTime api (host s))])
      \<and> list_all neutral (if isNaN (duration (elements s ! i)) then []
                            else [PositionSet i (video_currentTime api (host s))])"
      by (simp add: sync_eq neutral_def)
    then show ?thesis by (rule exI)
  qed
  then show ?thesis
    by (simp add: quiet_step_def sync_def split: option.split)
qed

lemma audioElement_sync [simp]: "audioElement (sync api s) = audioElement s"
  by (simp add: sync_def split: option.split)

lemma quiet_on_play: "quiet_step s (on_play api s)"
proof (cases "audioElement s")
  case None
  then show ?thesis by (simp add: on_play_def Let_def quiet_sync)
next
  case (Some i)
  then have "quiet_step (sync api s) (play_el api i (sync api s))"
    by (simp add: quiet_play_el)
  with quiet_sync [of s api] have "quiet_step s (play_el api i (sync api s))"
    by (rule quiet_trans)
  with Some show ?thesis by (simp add: on_play_def Let_def)
qed

lemma quiet_on_pause: "quiet_step s (on_pause s)"
  by (cases "audioElement s") (simp_all add: on_pause_def quiet_refl quiet_pause_el)

lemma quiet_on_volumechange: "quiet_step s (on_volumechange api s)"
proof (cases "isInitializing s \<or> audioElement s = None")
  case True
  then show ?thesis by (auto simp: on_volumechange_def quiet_refl)
next
  case False
  then obtain i where i: "audioElement s = Some i" and g: "\<not> isInitializing s" by auto
  let ?s1 = "s\<lparr>elements := (elements s)[i := (elements s ! i)
                 \<lparr>volume := art_volume api (host s), muted := art_muted api (host s)\<rparr>]\<rparr>"
  have q1: "quiet_step s ?s1"
  proof -
    have "\<exists>new. ops ?s1 = ops s @ new \<and> list_all neutral new"
      by (rule exI [of _ "[]"]) simp
    then show ?thesis by (simp add: quiet_step_def)
  qed
  have "audioElement ?s1 = Some i" using i by simp
  then have q2: "quiet_step ?s1 (play_el api i ?s1)" by (rule quiet_play_el)
  have "on_volumechange api s = ?s1 \<or> on_volumechange api s = play_el api i ?s1"
    using i g by (simp add: on_volumechange_def Let_def)
  then show ?thesis using q1 quiet_trans [OF q1 q2] by auto
qed

lemma quiet_handler: "quiet_step s (handler api ev s)"
  by (cases ev)
     (simp_all add: handler_def quiet_on_play quiet_on_pause on_seeked_def quiet_sync
        quiet_on_volumechange)

lemma quiet_dispatch: "quiet_step s (dispatch api ev s)"
  unfolding dispatch_funpow by (rule quiet_funpow) (rule quiet_handler)


lemma document_after_append:
  "document_after (xs @ ys) = fold apply_op ys (document_after xs)"
  by (simp add: document_after_def)

lemma session_ok_quiet:
  assumes ok: "session_ok s" and q: "quiet_step s s'"
  shows "session_ok s'"
proof -
  from q obtain new where new: "ops s' = ops s @ new" "list_all neutral new"
    by (auto simp: quiet_step_def)
  from q have same: "audioElement s' = audioElement s"
    "length (elements s') = length (elements s)"
    "\<And>j. j < length (elements s) \<Longrightarrow> attached (elements s' ! j) = attached (elements s ! j)"
    "\<And>j. j < length (elements s) \<Longrightarrow> audioElement s \<noteq> Some j
        \<Longrightarrow> paused (elements s' ! j) = paused (elements s ! j)"
    by (simp_all add: quiet_step_def)
  from ok have d: "document_after (ops s) =
      {j. j < length (elements s) \<and> attached (elements s ! j)}"
    and a: "at_most_one_from {} (ops s)"
    by (simp_all add: session_ok_def)
  have "document_after (ops s') = document_after (ops s)"
    by (simp add: new document_after_append fold_neutral)
  also have "\<dots> = {j. j < length (elements s') \<and> attached (elements s' ! j)}"
    using same by (auto simp: d)
  finally have d': "document_after (ops s') =
      {j. j < length (elements s') \<and> attached (elements s' ! j)}" .
  have "card (fold apply_op (ops s) {}) \<le> 1"
    using a by (rule at_most_one_final)
  then have a': "at_most_one_from {} (ops s')"
    using a by (simp add: new at_most_one_append at_most_one_neutral)
  show ?thesis
    using ok same d' a' by (simp add: session_ok_def)
qed

lemma attached_subset:
  assumes ok: "session_ok s"
  shows "{j. j < length (elements s) \<and> attached (elements s ! j)}
           \<subseteq> (case audioElement s of None \<Rightarrow> {} | Some i \<Rightarrow> {i})"
  using ok by (cases "audioElement s") (auto simp: session_ok_def)


lemma neutral_play_ops: "list_all neutral (play_ops api i h)"
  by (simp add: play_ops_def neutral_def)

lemma session_ok_create:
  assumes ok: "session_ok s"
  shows "session_ok (createAudioElement api u s)"
proof -
  let ?n = "length (elements s)"
  let ?D = "{j. j < ?n \<and> attached (elements s ! j)}"
  define tail where
    "tail = [ListenerAdded Play, ListenerAdded Pause, ListenerAdded Seeked,
             ListenerAdded VolumeChange]
            @ (if video_paused api (host s) then [] else play_ops api ?n (host s))"
  have tail: "list_all neutral tail"
    by (simp add: tail_def neutral_def neutral_play_ops)
  from ok have d: "document_after (ops s) = ?D" and a: "at_most_one_from {} (ops s)"
    by (simp_all add: session_ok_def)
  have f: "fold apply_op (ops s) {} = ?D"
    using d by (simp add: document_after_def)
  show ?thesis
  proof (cases "audioElement s")
    case None
    from attached_subset [OF ok] None have e: "?D = {}" by simp
    let ?s' = "createAudioElement api u s"
    have o: "ops ?s' = ops s @ [Created ?n, Appended ?n] @ tail"
      "audioElement ?s' = Some ?n" "length (elements ?s') = Suc ?n"
      "attached (elements ?s' ! ?n)"
      "\<And>j. j < ?n \<Longrightarrow> elements ?s' ! j = elements s ! j"
      by (simp_all add: createAudioElement_first [OF None] nth_append tail_def)
    have old: "\<And>j. j < ?n \<Longrightarrow> \<not> attached (elements s ! j) \<and> paused (elements s ! j)"
      using ok None by (simp add: session_ok_def)
    have i2: "\<forall>j < length (elements ?s'). audioElement ?s' \<noteq> Some j \<longrightarrow>
                \<not> attached (elements ?s' ! j) \<and> paused (elements ?s' ! j)"
      using o old by (auto simp: less_Suc_eq)
    have "document_after (ops ?s') = {?n}"
      by (simp add: o document_after_append d e fold_neutral [OF tail] apply_op_def)
    also have "\<dots> = {j. j < length (elements ?s') \<and> attached (elements ?s' ! j)}"
      using o old by (auto simp: less_Suc_eq)
    finally have i3: "document_after (ops ?s') =
        {j. j < length (elements ?s') \<and> attached (elements ?s' ! j)}" .
    have i4: "at_most_one_from {} (ops ?s')"
      using a by (simp add: o at_most_one_append f e apply_op_def
                    at_most_one_neutral [OF tail])
    show ?thesis
      using o i2 i3 i4 by (simp add: session_ok_def)
  next
    case (Some i)
    with ok have len: "i < ?n" by (simp add: session_ok_def)
    from attached_subset [OF ok] Some have e: "?D \<subseteq> {i}" by simp
    then have e': "?D - {i} = {}" by blast
    have c: "card ?D \<le> 1"
      using at_most_one_final [OF a] by (simp add: f)
    let ?s' = "createAudioElement api u s"
    have o: "ops ?s' = ops s @ [Paused i, Removed i, Created ?n, Appended ?n] @ tail"
      "audioElement ?s' = Some ?n" "length (elements ?s') = Suc ?n"
      "attached (elements ?s' ! ?n)"
      "\<not> attached (elements ?s' ! i) \<and> paused (elements ?s' ! i)"
      "\<And>j. j < ?n \<Longrightarrow> j \<noteq> i \<Longrightarrow> elements ?s' ! j = elements s ! j"
      using len by (simp_all add: createAudioElement_switch [OF Some len] nth_append tail_def)
    have old: "\<And>j. j < ?n \<Longrightarrow> j \<noteq> i
        \<Longrightarrow> \<not> attached (elements s ! j) \<and> paused (elements s ! j)"
      using ok Some by (simp add: session_ok_def)
    have i2: "\<forall>j < length (elements ?s'). audioElement ?s' \<noteq> Some j \<longrightarrow>
                \<not> attached (elements ?s' ! j) \<and> paused (elements ?s' ! j)"
    proof (intro allI impI)
      fix j assume "j < length (elements ?s')" "audioElement ?s' \<noteq> Some j"
      then have j: "j < ?n" using o by (simp add: less_Suc_eq)
      show "\<not> attached (elements ?s' ! j) \<and> paused (elements ?s' ! j)"
        using j o old by (cases "j = i") simp_all
    qed
    have "document_after (ops ?s') = {?n}"
      by (simp add: o document_after_append d e' fold_neutral [OF tail] apply_op_def)
    also have "\<dots> = {j. j < length (elements ?s') \<and> attached (elements ?s' ! j)}"
    proof -
      have "\<And>j. j < ?n \<Longrightarrow> \<not> attached (elements ?s' ! j)"
        using i2 o by simp
      with o show ?thesis by (auto simp: less_Suc_eq)
    qed
    finally have i3: "document_after (ops ?s') =
        {j. j < length (elements ?s') \<and> attached (elements ?s' ! j)}" .
    have i4: "at_most_one_from {} (ops ?s')"
      using a c by (simp add: o at_most_one_append f e' apply_op_def
                      at_most_one_neutral [OF tail])
    show ?thesis
      using o i2 i3 i4 by (simp add: session_ok_def)
  qed
qed


lemma detach_none: "audioElement s = None \<Longrightarrow> detach s = s"
  by (simp add: detach_def)

lemma detach_some:
  "audioElement s = Some i \<Longrightarrow>
   detach s =
     s\<lparr>elements := (elements s)[i := (elements s ! i)\<lparr>paused := True, attached := False\<rparr>],
       audioElement := None,
       ops := ops s @ [Paused i, Removed i]\<rparr>"
  by (cases "i < length (elements s)")
     (simp_all add: detach_def pause_el_def remove_el_def list_update_beyond)

lemma audioElement_detach [simp]: "audioElement (detach s) = None"
  by (cases "audioElement s") (simp_all add: detach_none detach_some)

lemma destroy_eq:
  "destroy b s = (detach s)\<lparr>ops := ops (detach s) @ [OriginalDestroy b]\<rparr>"
  by (simp add: destroy_def Let_def)

lemma destroy_none:
  "audioElement s = None \<Longrightarrow> destroy b s = s\<lparr>ops := ops s @ [OriginalDestroy b]\<rparr>"
  by (simp add: destroy_eq detach_none)

lemma audioElement_destroy [simp]: "audioElement (destroy b s) = None"
  by (simp add: destroy_eq)

lemma session_ok_detach:
  assumes ok: "session_ok s"
  shows "session_ok (detach s)"
proof (cases "audioElement s")
  case None
  with ok show ?thesis by (simp add: detach_none)
next
  case (Some i)
  let ?n = "length (elements s)"
  let ?D = "{j. j < ?n \<and> attached (elements s ! j)}"
  let ?s' = "detach s"
  from Some ok have len: "i < ?n" by (simp add: session_ok_def)
  from ok have d: "document_after (ops s) = ?D" and a: "at_most_one_from {} (ops s)"
    by (simp_all add: session_ok_def)
  have f: "fold apply_op (ops s) {} = ?D"
    using d by (simp add: document_after_def)
  from attached_subset [OF ok] Some have "?D \<subseteq> {i}" by simp
  then have e': "?D - {i} = {}" by blast
  have c: "card ?D \<le> 1"
    using at_most_one_final [OF a] by (simp add: f)
  have o: "ops ?s' = ops s @ [Paused i, Removed i]"
    "length (elements ?s') = ?n"
    "\<not> attached (elements ?s' ! i) \<and> paused (elements ?s' ! i)"
    "\<And>j. j < ?n \<Longrightarrow> j \<noteq> i \<Longrightarrow> elements ?s' ! j = elements s ! j"
    using len by (simp_all add: detach_some [OF Some])
  have old: "\<And>j. j < ?n \<Longrightarrow> j \<noteq> i
      \<Longrightarrow> \<not> attached (elements s ! j) \<and> paused (elements s ! j)"
    using ok Some by (simp add: session_ok_def)
  have i2: "\<forall>j < length (elements ?s').
              \<not> attached (elements ?s' ! j) \<and> paused (elements ?s' ! j)"
  proof (intro allI impI)
    fix j assume "j < length (elements ?s')"
    then have j: "j < ?n" using o by simp
    show "\<not> attached (elements ?s' ! j) \<and> paused (elements ?s' ! j)"
      using j o old by (cases "j = i") simp_all
  qed
  have "document_after (ops ?s') = {}"
    by (simp add: o document_after_append d e' apply_op_def)
  also have "\<dots> = {j. j < length (elements ?s') \<and> attached (elements ?s' ! j)}"
    using i2 by auto
  finally have i3: "document_after (ops ?s') =
      {j. j < length (elements ?s') \<and> attached (elements ?s' ! j)}" .
  have i4: "at_most_one_from {} (ops ?s')"
    using a c by (simp add: o at_most_one_append f e' apply_op_def)
  show ?thesis
    using i2 i3 i4 by (simp add: session_ok_def)
qed

lemma session_ok_destroy:
  assumes ok: "session_ok s"
  shows "session_ok (destroy b s)"
proof -
  have "\<exists>new. ops (destroy b s) = ops (detach s) @ new \<and> list_all neutral new"
    by (rule exI [of _ "[OriginalDestroy b]"]) (simp add: destroy_eq neutral_def)
  then have "quiet_step (detach s) (destroy b s)"
    by (simp add: quiet_step_def destroy_eq)
  with session_ok_detach [OF ok] show ?thesis by (rule session_ok_quiet)
qed

lemma session_ok_fields [simp]:
  "session_ok (s\<lparr>host := h\<rparr>) = session_ok s"
  "session_ok (s\<lparr>isInitializing := g\<rparr>) = session_ok s"
  "session_ok (s\<lparr>timers := n\<rparr>) = session_ok s"
  "session_ok (s\<lparr>currentAudioTrack := t\<rparr>) = session_ok s"
  by (simp_all add: session_ok_def)

lemma session_ok_initial: "session_ok (initial_session t h)"
  by (simp add: session_ok_def initial_session_def document_after_def)

lemma session_ok_metadata:
  assumes ok: "session_ok s"
  shows "session_ok (s\<lparr>elements := (elements s)[i := (elements s ! i)\<lparr>duration := d\<rparr>]\<rparr>)"
proof -
  have "\<exists>new. ops (s\<lparr>elements := (elements s)[i := (elements s ! i)\<lparr>duration := d\<rparr>]\<rparr>)
            = ops s @ new \<and> list_all neutral new"
    by (rule exI [of _ "[]"]) simp
  then have "quiet_step s (s\<lparr>elements := (elements s)[i := (elements s ! i)\<lparr>duration := d\<rparr>]\<rparr>)"
    by (simp add: quiet_step_def)
  with ok show ?thesis by (rule session_ok_quiet)
qed

lemma session_ok_step:
  assumes ok: "session_ok s"
  shows "session_ok (step api tracks e s)"
proof (cases e)
  case Ready
  then show ?thesis
    using ok by (simp add: step_def on_ready_def Let_def session_ok_create)
next
  case GuardElapsed
  then show ?thesis
    using ok by (simp add: step_def guard_elapsed_def)
next
  case (Video ev)
  then show ?thesis
    using ok by (simp add: step_def session_ok_quiet [OF _ quiet_dispatch])
next
  case (Select item)
  then show ?thesis
    using ok
    by (simp add: step_def onSelect_def session_ok_create split: option.split)
next
  case (Destroy b)
  then show ?thesis
    using ok by (simp add: step_def session_ok_destroy)
next
  case Unmount
  then show ?thesis
    using ok by (simp add: step_def onBeforeUnmount_def session_ok_destroy)
next
  case (HostSet h)
  then show ?thesis
    using ok by (simp add: step_def)
next
  case (MetadataLoaded i d)
  then show ?thesis
    using ok by (simp add: step_def session_ok_metadata)
qed

lemma session_ok_run:
  "session_ok s \<Longrightarrow> session_ok (run api tracks es s)"
proof (induction es arbitrary: s)
  case Nil
  then show ?case by (simp add: run_Nil)
next
  case (Cons e es)
  then show ?case by (simp add: run_Cons session_ok_step)
qed





lemma ok_released:
  assumes ok: "session_ok s" and none: "audioElement s = None"
  shows "attached_ids s = [] \<and> playing_ids s = []"
  using ok none
  by (simp add: session_ok_def attached_ids_def playing_ids_def filter_empty_conv)


lemma fold_destroy_none:
  assumes ok: "session_ok s" and none: "audioElement s = None"
  shows "session_ok (fold destroy bs s) \<and> audioElement (fold destroy bs s) = None"
  using ok none
proof (induction bs arbitrary: s)
  case Nil
  then show ?case by simp
next
  case (Cons b bs)
  have "session_ok (destroy b s)" "audioElement (destroy b s) = None"
    using Cons.prems by (simp_all add: session_ok_destroy)
  then show ?case using Cons.IH by simp
qed








text \<open>
  C5. The cleanup in front of the player's destroy is idempotent: running it twice
  gives the session that running it once gives, and running it when there is no current
  audio element changes nothing. A second destroy therefore touches no audio element
  and only passes the call on to the player's own \<^verbatim>\<open>destroy\<close> once more. After one
  or more destroy calls in a row in any reachable session, and after any number of calls
  (also none) before a session has created an audio element, no audio element is in the
  document and none is playing.
\<close>

theorem detach_idempotent:
  "detach (detach s) = detach s
   \<and> (audioElement s = None \<longrightarrow> detach s = s)
   \<and> destroy b' (destroy b s) = (destroy b s)\<lparr>ops := ops (destroy b s) @ [OriginalDestroy b']\<rparr>
   \<and> attached_ids (fold destroy (b # bs) (run api tracks es (initial_session t h))) = []
   \<and> playing_ids (fold destroy (b # bs) (run api tracks es (initial_session t h))) = []
   \<and> attached_ids (fold destroy bs (initial_session t h)) = []"
proof -
  let ?r = "run api tracks es (initial_session t h)"
  have ok: "session_ok ?r"
    by (rule session_ok_run) (rule session_ok_initial)
  have "session_ok (destroy b ?r)" "audioElement (destroy b ?r) = None"
    using ok by (simp_all add: session_ok_destroy)
  from fold_destroy_none [OF this, of bs]
  have a: "attached_ids (fold destroy (b # bs) ?r) = []
           \<and> playing_ids (fold destroy (b # bs) ?r) = []"
    by (simp add: ok_released)
  have "session_ok (initial_session t h)" "audioElement (initial_session t h) = None"
    by (simp_all add: session_ok_initial) (simp add: initial_session_def)
  from fold_destroy_none [OF this, of bs]
  have b: "attached_ids (fold destroy bs (initial_session t h)) = []"
    by (simp add: ok_released)
  have c: "destroy b' (destroy b s) =
             (destroy b s)\<lparr>ops := ops (destroy b s) @ [OriginalDestroy b']\<rparr>"
    by (rule destroy_none) simp
  have d: "detach (detach s) = detach s"
    by (rule detach_none) simp
  show ?thesis
    using a b c d by (simp add: detach_none)
qed

theorem detach_idempotent_witness:
  "audioElement (detach switched_while_playing) = None
   \<and> attached_ids switched_while_playing = [1]
   \<and> playing_ids switched_while_playing = [1]
   \<and> attached_ids (detach switched_while_playing) = []
   \<and> playing_ids (detach switched_while_playing) = []
   \<and> detach (detach switched_while_playing) = detach switched_while_playing
   \<and> ops (destroy False (destroy True switched_while_playing)) =
        ops switched_while_playing
          @ [Paused 1, Removed 1, OriginalDestroy True, OriginalDestroy False]"
  using detach_idempotent [of "detach switched_while_playing" False True "[]" direct_api
                            two_tracks "[]" track_a playing_at_30]
  by (simp add: switched_while_playing_eq destroy_def detach_def pause_el_def remove_el_def
        attached_ids_def playing_ids_def numeral_2_eq_2)

section \<open>Variant lists that do not parse\<close>

lemma parseVariants_failed:
  "s \<noteq> [] \<Longrightarrow> json_parse pf s = None \<Longrightarrow>
     parseVariants pf as_js msg (Text s) = (JUndefined, [msg])"
  by (simp add: parseVariants_def)

lemma parseVariants_absent: "parseVariants pf as_js msg NotGiven = (JUndefined, [])"
  by (simp add: parseVariants_def)

lemma parseVariants_empty:
  "parseVariants pf as_js msg (Text []) = parseVariants pf as_js msg NotGiven"
  by (simp add: parseVariants_def)

lemma parseVariants_parsed:
  "json_parse pf s = Some v \<Longrightarrow> s \<noteq> [] \<Longrightarrow> parseVariants pf as_js msg (Text s) = (v, [])"
  by (simp add: parseVariants_def)

lemma has_items_undefined: "\<not> has_items pf JUndefined"
  by (simp add: has_items_def)

lemma video_source_no_items:
  "\<not> has_items pf v \<Longrightarrow>
     video_source pf p v opts =
       Inr (if truthy_text (p_url p) then opts\<lparr>o_url := map_option JString (p_url p)\<rparr>
            else opts)"
  by (simp add: video_source_def)

lemma audio_branch_no_items: "\<not> has_items pf v \<Longrightarrow> audio_branch pf v = Inr None"
  by (simp add: audio_branch_def)

lemma base_options_props:
  "base_options env (p\<lparr>p_qualities := q\<rparr>) = base_options env p"
  "base_options env (p\<lparr>p_audioTracks := t\<rparr>) = base_options env p"
  by (simp_all add: base_options_def)

lemma video_source_props:
  "video_source pf (p\<lparr>p_qualities := q\<rparr>) v opts = video_source pf p v opts"
  "video_source pf (p\<lparr>p_audioTracks := t\<rparr>) v opts = video_source pf p v opts"
  by (simp_all add: video_source_def)

lemma onMounted_eq:
  assumes "has_container env"
    and "parseVariants pf quality_js ''Failed to parse qualities JSON:'' (p_qualities p) = (q, c1)"
    and "parseVariants pf track_js ''Failed to parse audioTracks JSON:'' (p_audioTracks p) = (t, c2)"
  shows "onMounted pf env p =
           (c1 @ c2,
            case video_source pf p q (base_options env p) of
              Inl e \<Rightarrow> Inl e
            | Inr playerOptions \<Rightarrow>
                if \<not> artplayer_accepts pf playerOptions then Inl ConstructorError
                else (case audio_branch pf t of
                        Inl e \<Rightarrow> Inl e
                      | Inr a \<Rightarrow> Inr (Some \<lparr>m_options = playerOptions, m_audio = a\<rparr>)))"
  using assms by (simp add: onMounted_def)

lemma qualities_like_absent:
  assumes c: "has_container env"
    and q: "parseVariants pf quality_js ''Failed to parse qualities JSON:'' x = (v, l)"
    and v: "\<not> has_items pf v"
  shows "onMounted pf env (p\<lparr>p_qualities := x\<rparr>) =
           (l @ fst (onMounted pf env (p\<lparr>p_qualities := NotGiven\<rparr>)),
            snd (onMounted pf env (p\<lparr>p_qualities := NotGiven\<rparr>)))"
proof -
  obtain t c2 where t: "parseVariants pf track_js ''Failed to parse audioTracks JSON:''
      (p_audioTracks p) = (t, c2)"
    by (cases "parseVariants pf track_js ''Failed to parse audioTracks JSON:''
      (p_audioTracks p)")
  show ?thesis
    using v
    by (simp add: onMounted_eq [OF c, where q = v and ?c1.0 = l and t = t and ?c2.0 = c2]
          onMounted_eq [OF c, where q = JUndefined and ?c1.0 = "[]" and t = t and ?c2.0 = c2]
          q t parseVariants_absent video_source_no_items has_items_undefined
          base_options_props video_source_props)
qed

lemma tracks_like_absent:
  assumes c: "has_container env"
    and q: "parseVariants pf track_js ''Failed to parse audioTracks JSON:'' x = (v, l)"
    and v: "\<not> has_items pf v"
  shows "onMounted pf env (p\<lparr>p_audioTracks := x\<rparr>) =
           (fst (onMounted pf env (p\<lparr>p_audioTracks := NotGiven\<rparr>)) @ l,
            snd (onMounted pf env (p\<lparr>p_audioTracks := NotGiven\<rparr>)))"
proof -
  obtain t c1 where t: "parseVariants pf quality_js ''Failed to parse qualities JSON:''
      (p_qualities p) = (t, c1)"
    by (cases "parseVariants pf quality_js ''Failed to parse qualities JSON:''
      (p_qualities p)")
  show ?thesis
    using v
    by (simp add: onMounted_eq [OF c, where q = t and ?c1.0 = c1 and t = v and ?c2.0 = l]
          onMounted_eq [OF c, where q = t and ?c1.0 = c1 and t = JUndefined and ?c2.0 = "[]"]
          q t parseVariants_absent audio_branch_no_items has_items_undefined
          base_options_props video_source_props split: sum.split)
qed

lemma neither_list:
  assumes c: "has_container env"
    and q: "parseVariants pf quality_js ''Failed to parse qualities JSON:'' x = (v, l)"
    and v: "\<not> has_items pf v"
    and t: "parseVariants pf track_js ''Failed to parse audioTracks JSON:'' y = (w, m)"
    and w: "\<not> has_items pf w"
  shows "onMounted pf env (p\<lparr>p_qualities := x, p_audioTracks := y\<rparr>) =
           (l @ m,
            let opts = (base_options env p)
                         \<lparr>o_url := (if truthy_text (p_url p) then map_option JString (p_url p)
                                    else None)\<rparr>
            in if artplayer_accepts pf opts
               then Inr (Some \<lparr>m_options = opts, m_audio = None\<rparr>)
               else Inl ConstructorError)"
proof -
  have b: "(base_options env p)\<lparr>o_url := None\<rparr> = base_options env p"
    by (simp add: base_options_def)
  show ?thesis
    using v w b
    by (simp add: onMounted_eq [OF c, where q = v and ?c1.0 = l and t = w and ?c2.0 = m]
          q t video_source_no_items audio_branch_no_items base_options_props
          video_source_props Let_def)
qed


lemma empty_text_like_absent:
  "onMounted pf env (p\<lparr>p_qualities := Text []\<rparr>) =
     onMounted pf env (p\<lparr>p_qualities := NotGiven\<rparr>)"
  "onMounted pf env (p\<lparr>p_audioTracks := Text []\<rparr>) =
     onMounted pf env (p\<lparr>p_audioTracks := NotGiven\<rparr>)"
  by (simp_all add: onMounted_def parseVariants_empty base_options_props video_source_props)

lemma parsed_like_absent:
  assumes v: "json_parse pf s = Some v" "\<not> has_items pf v"
  shows "onMounted pf env (p\<lparr>p_qualities := Text s\<rparr>) =
           onMounted pf env (p\<lparr>p_qualities := NotGiven\<rparr>)"
    and "onMounted pf env (p\<lparr>p_audioTracks := Text s\<rparr>) =
           onMounted pf env (p\<lparr>p_audioTracks := NotGiven\<rparr>)"
proof -
  show "onMounted pf env (p\<lparr>p_qualities := Text s\<rparr>) =
           onMounted pf env (p\<lparr>p_qualities := NotGiven\<rparr>)"
  proof (cases "has_container env \<and> s \<noteq> []")
    case True
    then have c: "has_container env" and s: "s \<noteq> []"
      by simp_all
    show ?thesis
      using qualities_like_absent [OF c parseVariants_parsed [OF v(1) s] v(2), of p]
      by simp
  next
    case False
    then show ?thesis
      by (auto simp: empty_text_like_absent) (simp add: onMounted_def)
  qed
  show "onMounted pf env (p\<lparr>p_audioTracks := Text s\<rparr>) =
           onMounted pf env (p\<lparr>p_audioTracks := NotGiven\<rparr>)"
  proof (cases "has_container env \<and> s \<noteq> []")
    case True
    then have c: "has_container env" and s: "s \<noteq> []"
      by simp_all
    show ?thesis
      using tracks_like_absent [OF c parseVariants_parsed [OF v(1) s] v(2), of p]
      by simp
  next
    case False
    then show ?thesis
      by (auto simp: empty_text_like_absent) (simp add: onMounted_def)
  qed
qed

text \<open>
  The values that pass the test of line 104 without being an array, a non-empty string
  and an object with a \<^verbatim>\<open>length\<close> above zero, have no method \<^verbatim>\<open>find\<close>, and an
  array with a \<^verbatim>\<open>null\<close> element in front of its default entry fails in the callback:
  for a quality text that parses to such a value the hook throws a \<^verbatim>\<open>TypeError\<close> to
  its caller.
\<close>

lemma parsed_value_throws:
  assumes c: "has_container env" and s: "s \<noteq> []" and v: "json_parse pf s = Some v"
    and h: "has_items pf v" and n: "pick_default v = Inl TypeError"
  shows "snd (onMounted pf env (p\<lparr>p_qualities := Text s\<rparr>)) = Inl TypeError"
proof -
  obtain t c2 where t: "parseVariants pf track_js ''Failed to parse audioTracks JSON:''
      (p_audioTracks p) = (t, c2)"
    by (cases "parseVariants pf track_js ''Failed to parse audioTracks JSON:''
      (p_audioTracks p)")
  show ?thesis
    using h n
    by (simp add: onMounted_eq [OF c, where q = v and ?c1.0 = "[]" and t = t and ?c2.0 = c2]
          parseVariants_parsed [OF v s] t video_source_def)
qed

lemma pick_default_no_array: "(\<And>xs. v \<noteq> JArray xs) \<Longrightarrow> pick_default v = Inl TypeError"
  by (cases v) (auto simp: pick_default_def)

lemma pick_default_null_first: "pick_default (JArray (JNull # xs)) = Inl TypeError"
  by (simp add: pick_default_def get_prop_def)

text \<open>
  On a structured list of tracks the choice of line 118 is the choice on the list of
  the declared type, which is the track the session starts with.
\<close>

lemma get_prop_track_default:
  "get_prop ''default'' (track_js t) =
     Inr (case t_default t of Some b \<Rightarrow> JBool b | None \<Rightarrow> JUndefined)"
  by (simp add: get_prop_def track_js_def flag_prop_def split: option.split)

lemma js_find_tracks:
  "js_find ''default'' (map track_js ts) =
     Inr (case find (\<lambda>t. truthy_flag (t_default t)) ts of
            Some t \<Rightarrow> track_js t | None \<Rightarrow> JUndefined)"
  by (induction ts) (auto simp: get_prop_track_default truthy_flag_def split: option.split)

lemma truthy_track_js: "truthy (track_js t)"
  by (simp add: track_js_def)

lemma pick_default_tracks:
  assumes "default_or_first (\<lambda>t. truthy_flag (t_default t)) ts = Some t"
  shows "pick_default (JArray (map track_js ts)) = Inr (track_js t)"
proof -
  have "pick_default (JArray (map track_js ts)) =
          Inr (case find (\<lambda>t. truthy_flag (t_default t)) ts of
                 Some t \<Rightarrow> track_js t
               | None \<Rightarrow> (case ts of [] \<Rightarrow> JUndefined | x # _ \<Rightarrow> track_js x))"
    by (simp add: pick_default_def js_find_tracks truthy_track_js
          split: option.split list.split)
  with assms show ?thesis
    by (cases ts) (auto split: option.splits if_splits)
qed

text \<open>
  C9, as stated, asks that after any malformed variant list the component is configured
  from the single URL and throws nothing. An audio track text that does not parse is
  logged and dropped, but the video source is still taken from the quality list: the
  player gets the quality list and the URL of its default entry, not the URL property.
  And a quality text can be JSON without being a list of qualities: the text
  \<^verbatim>\<open>[null]\<close> parses, nothing is logged, and the hook throws a \<^verbatim>\<open>TypeError\<close>.
\<close>

theorem malformed_variants_counterexample:
  "json_parse strict_platform ''{oops'' = None
   \<and> p_audioTracks bad_tracks_props = Text ''{oops''
   \<and> p_url bad_tracks_props = Some ''plain.mp4''
   \<and> onMounted strict_platform page bad_tracks_props =
        ([''Failed to parse audioTracks JSON:''],
         Inr (Some \<lparr>m_options =
                      plain_options\<lparr>o_quality := Some (JArray [quality_js quality_hd]),
                                    o_url := Some (JString ''hd.mp4'')\<rparr>,
                    m_audio = None\<rparr>))
   \<and> json_parse strict_platform ''[null]'' = Some (JArray [JNull])
   \<and> p_qualities null_member_props = Text ''[null]''
   \<and> onMounted strict_platform page null_member_props = ([], Inl TypeError)"
  by (simp add: onMounted_def parseVariants_def strict_platform_def page_def
        bad_tracks_props_def null_member_props_def plain_props_def plain_options_def
        base_options_def or_empty_def video_source_def audio_branch_def has_items_def
        js_length_def greater_def pick_default_def get_prop_def quality_js_def
        quality_hd_def flag_prop_def text_prop_def)

text \<open>
  C9, amended. Let a non-empty text be one that \<^verbatim>\<open>JSON.parse\<close> rejects, and let
  the container be there. Supplied as \<open>qualities\<close>, the text is logged, and the
  hook then does what it does on the same properties without \<open>qualities\<close>: same
  console after the logged line, same outcome. Supplied as \<open>audioTracks\<close>, it is
  logged, after whatever the qualities logged, and the hook does what it does without
  \<open>audioTracks\<close>. When the text is supplied as \<open>qualities\<close> and the audio
  tracks are missing or leave the array variable without items (a rejected text among
  them), the hook is on the single-URL path and throws nothing of its own: the player
  is constructed with options that have no quality list and have the URL property as
  their URL when that is a non-empty string, no audio is set up, and only the
  constructor can throw. A text that parses to a value failing the test of line 104 or
  117, and the empty text, are treated as a missing property too, but nothing is
  logged.
\<close>

theorem malformed_variants:
  assumes c: "has_container env" and s: "s \<noteq> []" and f: "json_parse pf s = None"
  shows "onMounted pf env (p\<lparr>p_qualities := Text s\<rparr>) =
           (''Failed to parse qualities JSON:''
              # fst (onMounted pf env (p\<lparr>p_qualities := NotGiven\<rparr>)),
            snd (onMounted pf env (p\<lparr>p_qualities := NotGiven\<rparr>)))
       \<and> onMounted pf env (p\<lparr>p_audioTracks := Text s\<rparr>) =
           (fst (onMounted pf env (p\<lparr>p_audioTracks := NotGiven\<rparr>))
              @ [''Failed to parse audioTracks JSON:''],
            snd (onMounted pf env (p\<lparr>p_audioTracks := NotGiven\<rparr>)))
       \<and> (\<not> has_items pf
               (fst (parseVariants pf track_js ''Failed to parse audioTracks JSON:'' y)) \<longrightarrow>
            onMounted pf env (p\<lparr>p_qualities := Text s, p_audioTracks := y\<rparr>) =
              (''Failed to parse qualities JSON:''
                 # snd (parseVariants pf track_js ''Failed to parse audioTracks JSON:'' y),
               let opts = (base_options env p)
                            \<lparr>o_url := (if truthy_text (p_url p)
                                       then map_option JString (p_url p) else None)\<rparr>
               in if artplayer_accepts pf opts
                  then Inr (Some \<lparr>m_options = opts, m_audio = None\<rparr>)
                  else Inl ConstructorError))
       \<and> (json_parse pf s' = Some v \<and> \<not> has_items pf v \<longrightarrow>
            onMounted pf env (p\<lparr>p_qualities := Text s'\<rparr>) =
              onMounted pf env (p\<lparr>p_qualities := NotGiven\<rparr>)
            \<and> onMounted pf env (p\<lparr>p_audioTracks := Text s'\<rparr>) =
                onMounted pf env (p\<lparr>p_audioTracks := NotGiven\<rparr>))
       \<and> onMounted pf env (p\<lparr>p_qualities := Text []\<rparr>) =
           onMounted pf env (p\<lparr>p_qualities := NotGiven\<rparr>)
       \<and> onMounted pf env (p\<lparr>p_audioTracks := Text []\<rparr>) =
           onMounted pf env (p\<lparr>p_audioTracks := NotGiven\<rparr>)"
proof (intro conjI impI)
  note q = parseVariants_failed [OF s f]
  show "onMounted pf env (p\<lparr>p_qualities := Text s\<rparr>) =
           (''Failed to parse qualities JSON:''
              # fst (onMounted pf env (p\<lparr>p_qualities := NotGiven\<rparr>)),
            snd (onMounted pf env (p\<lparr>p_qualities := NotGiven\<rparr>)))"
    using qualities_like_absent [OF c q has_items_undefined, of p] by simp
  show "onMounted pf env (p\<lparr>p_audioTracks := Text s\<rparr>) =
           (fst (onMounted pf env (p\<lparr>p_audioTracks := NotGiven\<rparr>))
              @ [''Failed to parse audioTracks JSON:''],
            snd (onMounted pf env (p\<lparr>p_audioTracks := NotGiven\<rparr>)))"
    using tracks_like_absent [OF c q has_items_undefined, of p] by simp
  show "onMounted pf env (p\<lparr>p_qualities := Text s, p_audioTracks := y\<rparr>) =
              (''Failed to parse qualities JSON:''
                 # snd (parseVariants pf track_js ''Failed to parse audioTracks JSON:'' y),
               let opts = (base_options env p)
                            \<lparr>o_url := (if truthy_text (p_url p)
                                       then map_option JString (p_url p) else None)\<rparr>
               in if artplayer_accepts pf opts
                  then Inr (Some \<lparr>m_options = opts, m_audio = None\<rparr>)
                  else Inl ConstructorError)"
    if w: "\<not> has_items pf
               (fst (parseVariants pf track_js ''Failed to parse audioTracks JSON:'' y))"
  proof -
    have t: "parseVariants pf track_js ''Failed to parse audioTracks JSON:'' y =
               (fst (parseVariants pf track_js ''Failed to parse audioTracks JSON:'' y),
                snd (parseVariants pf track_js ''Failed to parse audioTracks JSON:'' y))"
      by simp
    show ?thesis
      using neither_list [OF c q has_items_undefined t w, of p] by simp
  qed
next
  assume a: "json_parse pf s' = Some v \<and> \<not> has_items pf v"
  then show "onMounted pf env (p\<lparr>p_qualities := Text s'\<rparr>) =
              onMounted pf env (p\<lparr>p_qualities := NotGiven\<rparr>)"
    by (simp add: parsed_like_absent)
  from a show "onMounted pf env (p\<lparr>p_audioTracks := Text s'\<rparr>) =
                onMounted pf env (p\<lparr>p_audioTracks := NotGiven\<rparr>)"
    by (simp add: parsed_like_absent)
qed (rule empty_text_like_absent)+


theorem malformed_variants_witness:
  "has_container page
   \<and> json_parse strict_platform ''{oops'' = None
   \<and> onMounted strict_platform page bad_qualities_props =
        ([''Failed to parse qualities JSON:''],
         Inr (Some \<lparr>m_options = plain_options, m_audio = None\<rparr>))
   \<and> onMounted strict_platform page bad_tracks_props =
        (fst (onMounted strict_platform page plain_props)
           @ [''Failed to parse audioTracks JSON:''],
         snd (onMounted strict_platform page plain_props))
   \<and> json_parse strict_platform ''null'' = Some JNull
   \<and> onMounted strict_platform page (plain_props\<lparr>p_qualities := Text ''null''\<rparr>) =
        ([], Inr (Some \<lparr>m_options = plain_options, m_audio = None\<rparr>))"
proof -
  have c: "has_container page"
    by (simp add: page_def)
  have s: "''{oops'' \<noteq> []"
    by simp
  have f: "json_parse strict_platform ''{oops'' = None"
    by (simp add: strict_platform_def)
  have n: "json_parse strict_platform ''null'' = Some JNull \<and> \<not> has_items strict_platform JNull"
    by (simp add: strict_platform_def has_items_def)
  have a: "\<not> has_items strict_platform
               (fst (parseVariants strict_platform track_js
                       ''Failed to parse audioTracks JSON:'' NotGiven))"
    by (simp add: parseVariants_def has_items_def)
  note t = malformed_variants [OF c s f, where p = plain_props and y = NotGiven
      and s' = "''null''" and v = JNull]
  have e: "plain_props\<lparr>p_qualities := Text ''{oops'', p_audioTracks := NotGiven\<rparr>
             = bad_qualities_props"
    "plain_props\<lparr>p_audioTracks := Text ''{oops''\<rparr> = bad_tracks_props"
    "plain_props\<lparr>p_audioTracks := NotGiven\<rparr> = plain_props"
    "plain_props\<lparr>p_qualities := NotGiven, p_audioTracks := NotGiven\<rparr>
       = plain_props\<lparr>p_qualities := NotGiven\<rparr>"
    by (simp_all add: bad_qualities_props_def bad_tracks_props_def plain_props_def)
  have o: "(base_options page plain_props)
             \<lparr>o_url := (if truthy_text (p_url plain_props)
                        then map_option JString (p_url plain_props) else None)\<rparr>
           = plain_options"
    "artplayer_accepts strict_platform plain_options"
    by (simp_all add: base_options_def plain_props_def plain_options_def page_def
          or_empty_def truthy_text_def strict_platform_def)
  have g: "onMounted strict_platform page (plain_props\<lparr>p_qualities := NotGiven\<rparr>) =
             ([], Inr (Some \<lparr>m_options = plain_options, m_audio = None\<rparr>))"
    using neither_list [of page strict_platform NotGiven JUndefined "[]" NotGiven
        JUndefined "[]" plain_props]
    by (simp add: c parseVariants_absent has_items_undefined e o)
  from t have "onMounted strict_platform page bad_qualities_props =
        ([''Failed to parse qualities JSON:''],
         Inr (Some \<lparr>m_options = plain_options, m_audio = None\<rparr>))"
    using a by (simp add: e o parseVariants_absent)
  moreover from t have "onMounted strict_platform page bad_tracks_props =
        (fst (onMounted strict_platform page plain_props)
           @ [''Failed to parse audioTracks JSON:''],
         snd (onMounted strict_platform page plain_props))"
    by (simp add: e)
  moreover from t n have
    "onMounted strict_platform page (plain_props\<lparr>p_qualities := Text ''null''\<rparr>) =
        ([], Inr (Some \<lparr>m_options = plain_options, m_audio = None\<rparr>))"
    by (simp add: g)
  ultimately show ?thesis
    using c f n by simp
qed

end
